theory Spec2Isabelle
  imports Main "HOL-Library.Word" "HOL-Library.Sublist" "HOL-Library.AList"
begin

unbundle bit_operations_syntax

section \<open>JavaScript values\<close>

text \<open>
  The shims are untyped glue: option bags and callbacks are plain JavaScript values, and
  the code branches on \<open>typeof\<close> and on truthiness. The values the filesystem shim can be
  given are collected in one datatype. Numbers are integers or
  \<open>NaN\<close> (no fraction occurs in the code), a \<open>Uint8Array\<close> is its list of bytes, a function
  is named by a number, an object is its list of own properties in insertion order.
  Strings are Isabelle strings (one \<open>char\<close> per code unit, which is exact for ASCII).
\<close>

type_synonym byte = "8 word"

datatype jsval =
    JUndefined
  | JNull
  | JBool bool
  | JNum int
  | JNaN
  | JStr string
  | JBytes "byte list"
  | JFun nat
  | JObj "(string \<times> jsval) list"

text \<open>\<open>if (v)\<close>: every object (a function, a typed array, even an empty one) is truthy.\<close>

fun truthy :: "jsval \<Rightarrow> bool" where
  "truthy JUndefined = False"
| "truthy JNull = False"
| "truthy (JBool b) = b"
| "truthy (JNum n) = (n \<noteq> 0)"
| "truthy JNaN = False"
| "truthy (JStr s) = (s \<noteq> [])"
| "truthy (JBytes bs) = True"
| "truthy (JFun f) = True"
| "truthy (JObj ps) = True"

fun typeof :: "jsval \<Rightarrow> string" where
  "typeof JUndefined = ''undefined''"
| "typeof JNull = ''object''"
| "typeof (JBool b) = ''boolean''"
| "typeof (JNum n) = ''number''"
| "typeof JNaN = ''number''"
| "typeof (JStr s) = ''string''"
| "typeof (JBytes bs) = ''object''"
| "typeof (JFun f) = ''function''"
| "typeof (JObj ps) = ''object''"

text \<open>
  A thrown value is an \<open>Error\<close> object: its class name, its message, and the two fields
  of \<open>NodeError\<close> the shim sets (\<open>errno\<close> is declared there but never written).
\<close>

record js_error =
  name :: string
  message :: string
  code :: "string option"
  syscall :: "string option"

definition TypeError :: "string \<Rightarrow> js_error" where
  "TypeError msg = \<lparr>name = ''TypeError'', message = msg, code = None, syscall = None\<rparr>"

definition RangeError :: "string \<Rightarrow> js_error" where
  "RangeError msg = \<lparr>name = ''RangeError'', message = msg, code = None, syscall = None\<rparr>"

section \<open>Iteration utilities\<close>

subsection \<open>Values of a source\<close>

text \<open>
  What a source hands to the drain loop is \<open>unknown\<close> to the code, and \<open>collect\<close> reads
  members of it. The values of a source are the primitive values, a \<open>Uint8Array\<close> (its
  list of bytes), and any other object, of which the code can see nothing: \<open>VObject\<close>
  stands for an object that has neither a \<open>byteLength\<close> nor a \<open>length\<close> member (a plain
  object, a \<open>Blob\<close>, an iterator), named by a number.
\<close>

datatype val =
    VUndefined
  | VNull
  | VBool bool
  | VNum int
  | VNaN
  | VStr string
  | VBytes "byte list"
  | VObject nat

text \<open>\<open>if (value)\<close>: every object is truthy, also an empty \<open>Uint8Array\<close>.\<close>

fun val_truthy :: "val \<Rightarrow> bool" where
  "val_truthy VUndefined = False"
| "val_truthy VNull = False"
| "val_truthy (VBool b) = b"
| "val_truthy (VNum n) = (n \<noteq> 0)"
| "val_truthy VNaN = False"
| "val_truthy (VStr s) = (s \<noteq> [])"
| "val_truthy (VBytes bs) = True"
| "val_truthy (VObject k) = True"

subsection \<open>Iterators\<close>

text \<open>
  \<open>await iter.next()\<close> gives \<open>{ value, done }\<close>, or throws when the promise is rejected,
  and moves the iterator on. An iterator is an object with hidden state, so it is
  modelled by what can be observed of it: the result of the next call, the iterator as
  it is after that call, and, when it has a \<open>return\<close> method, the iterator as it is
  after \<open>return()\<close>. \<open>step_done\<close> is the truthiness of \<open>done\<close>.
\<close>

record step =
  step_value :: val
  step_done :: bool

codatatype iter =
  Iter (next_result: "js_error + step") (next_iter: iter) (return_iter: "iter option")

subsection \<open>fromValue (src/utils/fromValue.ts)\<close>

text \<open>
  \<open>Array.prototype.pop\<close> removes and returns the last element; on an empty array it
  returns \<open>undefined\<close> and leaves the array empty.
\<close>

definition pop :: "val list \<Rightarrow> val \<times> val list" where
  "pop queue = (if queue = [] then (VUndefined, []) else (last queue, butlast queue))"

text \<open>
  The object \<open>fromValue\<close> returns, for the current content of its captured variable
  \<open>queue\<close>: \<open>next\<close> reads \<open>queue.length === 0\<close> first and pops second; \<open>return\<close> assigns
  \<open>queue = []\<close>.
\<close>

primcorec queue_iter :: "val list \<Rightarrow> iter" where
  "next_result (queue_iter queue) =
     Inr \<lparr>step_value = fst (pop queue), step_done = (length queue = 0)\<rparr>"
| "next_iter (queue_iter queue) = queue_iter (snd (pop queue))"
| "return_iter (queue_iter queue) = Some (queue_iter [])"

definition fromValue :: "val \<Rightarrow> iter" where
  "fromValue v = queue_iter [v]"

text \<open>Calls a client can make on an iterator; \<open>return()\<close> is a \<open>TypeError\<close> on an iterator
  that has no such method.\<close>

datatype iter_call = CallNext | CallReturn

fun after_call :: "iter_call \<Rightarrow> iter \<Rightarrow> js_error + iter" where
  "after_call CallNext it = Inr (next_iter it)"
| "after_call CallReturn it =
     (case return_iter it of
        None \<Rightarrow> Inl (TypeError ''iter.return is not a function'')
      | Some it' \<Rightarrow> Inr it')"

fun after_calls :: "iter_call list \<Rightarrow> iter \<Rightarrow> js_error + iter" where
  "after_calls [] it = Inr it"
| "after_calls (c # cs) it =
     (case after_call c it of Inl e \<Rightarrow> Inl e | Inr it' \<Rightarrow> after_calls cs it')"

subsection \<open>getIterator (src/utils/getIterator.ts)\<close>

text \<open>
  What \<open>getIterator\<close> looks at in its argument: the iterator \<open>iterable[Symbol.asyncIterator]()\<close>
  would return, the one \<open>iterable[Symbol.iterator]()\<close> would return, the argument itself
  seen as an iterator when it has a \<open>next\<close> member, and the argument as a value. Reading
  a member of \<open>undefined\<close> or \<open>null\<close> throws. For an argument that has one of the three
  members, \<open>self\<close> is only ever tested (for truthiness, for \<open>undefined\<close> and \<open>null\<close>).
\<close>

record iterable =
  asyncIterator :: "iter option"
  syncIterator :: "iter option"
  nextMember :: "iter option"
  self :: val

definition getIterator :: "iterable \<Rightarrow> js_error + iter" where
  "getIterator iterable =
     (if self iterable = VUndefined \<or> self iterable = VNull
      then Inl (TypeError ''Cannot read properties of undefined'')
      else case asyncIterator iterable of
          Some it \<Rightarrow> Inr it
        | None \<Rightarrow>
           (case syncIterator iterable of
              Some it \<Rightarrow> Inr it
            | None \<Rightarrow>
               (case nextMember iterable of
                  Some it \<Rightarrow> Inr it
                | None \<Rightarrow> Inr (fromValue (self iterable)))))"

text \<open>The iterator of a JavaScript array: its elements, then completion; no \<open>return\<close>.\<close>

primcorec array_iter :: "val list \<Rightarrow> iter" where
  "next_result (array_iter xs) =
     (case xs of [] \<Rightarrow> Inr \<lparr>step_value = VUndefined, step_done = True\<rparr>
               | x # _ \<Rightarrow> Inr \<lparr>step_value = x, step_done = False\<rparr>)"
| "next_iter (array_iter xs) = array_iter (tl xs)"
| "return_iter (array_iter xs) = None"

definition array_iterable :: "val list \<Rightarrow> iterable" where
  "array_iterable xs =
     \<lparr>asyncIterator = None, syncIterator = Some (array_iter xs), nextMember = None,
      self = VObject 0\<rparr>"

text \<open>
  Two values of the web type \<open>BodyInit\<close> are iterable by themselves: a \<open>Uint8Array\<close>
  iterates over its bytes as numbers, a string over its characters as one-character
  strings.
\<close>

definition typed_array_iterable :: "byte list \<Rightarrow> iterable" where
  "typed_array_iterable bytes =
     \<lparr>asyncIterator = None, syncIterator = Some (array_iter (map (\<lambda>b. VNum (uint b)) bytes)),
      nextMember = None, self = VBytes bytes\<rparr>"

definition string_iterable :: "string \<Rightarrow> iterable" where
  "string_iterable s =
     \<lparr>asyncIterator = None, syncIterator = Some (array_iter (map (\<lambda>c. VStr [c]) s)),
      nextMember = None, self = VStr s\<rparr>"

text \<open>An iterator that answers its calls from a script of results, and reports
  completion once the script is used up; it has a \<open>return\<close> method that ends it. An
  async generator is such a source.\<close>

primcorec script_iter :: "(js_error + step) list \<Rightarrow> iter" where
  "next_result (script_iter rs) =
     (case rs of [] \<Rightarrow> Inr \<lparr>step_value = VUndefined, step_done = True\<rparr> | r # _ \<Rightarrow> r)"
| "next_iter (script_iter rs) = script_iter (tl rs)"
| "return_iter (script_iter rs) = Some (script_iter [])"

definition async_source :: "(js_error + step) list \<Rightarrow> iterable" where
  "async_source rs =
     \<lparr>asyncIterator = Some (script_iter rs), syncIterator = None, nextMember = None,
      self = VObject 0\<rparr>"

subsection \<open>forAwait (src/utils/forAwait.ts)\<close>

text \<open>
  The loop has no bound: on a source that never reports completion it does not return,
  which is the value \<open>None\<close>. The callback works on the caller's variables, passed here as
  \<open>acc\<close>; when it throws, or when \<open>next\<close> does, the exception leaves \<open>forAwait\<close> at once
  and \<open>return\<close> is not called.
\<close>

partial_function (option) forAwait_loop ::
  "(val \<Rightarrow> 'a \<Rightarrow> js_error + 'a) \<Rightarrow> iter \<Rightarrow> 'a \<Rightarrow> (js_error + 'a \<times> iter) option" where
  "forAwait_loop cb it acc =
     (case next_result it of
        Inl e \<Rightarrow> Some (Inl e)
      | Inr r \<Rightarrow>
         (case (if val_truthy (step_value r) then cb (step_value r) acc else Inr acc) of
            Inl e \<Rightarrow> Some (Inl e)
          | Inr acc' \<Rightarrow>
              if step_done r then Some (Inr (acc', next_iter it))
              else forAwait_loop cb (next_iter it) acc'))"

definition forAwait ::
  "iterable \<Rightarrow> (val \<Rightarrow> 'a \<Rightarrow> js_error + 'a) \<Rightarrow> 'a \<Rightarrow> (js_error + 'a \<times> iter) option" where
  "forAwait iterable cb acc =
     (case getIterator iterable of
        Inl e \<Rightarrow> Some (Inl e)
      | Inr it \<Rightarrow>
         (case forAwait_loop cb it acc of
            None \<Rightarrow> None
          | Some (Inl e) \<Rightarrow> Some (Inl e)
          | Some (Inr (acc', it')) \<Rightarrow>
              Some (Inr (acc', case return_iter it' of Some it'' \<Rightarrow> it'' | None \<Rightarrow> it'))))"

text \<open>
  Vocabulary for statements about the loop. \<open>completes_at n it\<close>: the calls of \<open>next\<close>
  numbered 0 to \<open>n\<close> all resolve, and call \<open>n\<close> is the first that reports completion.
  \<open>value_at k it\<close>: the value call \<open>k\<close> resolves with. \<open>values_upto n it\<close>: the values of
  the calls 0 to \<open>n\<close>, in order. \<open>delivered n it\<close>: the truthy ones among them.
  \<open>after_next n it\<close>: the iterator after \<open>n\<close> calls.
\<close>

fun completes_at :: "nat \<Rightarrow> iter \<Rightarrow> bool" where
  "completes_at 0 it = (case next_result it of Inl e \<Rightarrow> False | Inr r \<Rightarrow> step_done r)"
| "completes_at (Suc n) it =
     (case next_result it of
        Inl e \<Rightarrow> False
      | Inr r \<Rightarrow> \<not> step_done r \<and> completes_at n (next_iter it))"

fun values_upto :: "nat \<Rightarrow> iter \<Rightarrow> val list" where
  "values_upto 0 it = (case next_result it of Inl e \<Rightarrow> [] | Inr r \<Rightarrow> [step_value r])"
| "values_upto (Suc n) it =
     (case next_result it of Inl e \<Rightarrow> [] | Inr r \<Rightarrow> step_value r # values_upto n (next_iter it))"

definition delivered :: "nat \<Rightarrow> iter \<Rightarrow> val list" where
  "delivered n it = filter val_truthy (values_upto n it)"

fun after_next :: "nat \<Rightarrow> iter \<Rightarrow> iter" where
  "after_next 0 it = it"
| "after_next (Suc n) it = after_next n (next_iter it)"


text \<open>A callback run over a list of values, stopping at the first exception.\<close>

fun run_cb :: "(val \<Rightarrow> 'a \<Rightarrow> js_error + 'a) \<Rightarrow> val list \<Rightarrow> 'a \<Rightarrow> js_error + 'a" where
  "run_cb cb [] acc = Inr acc"
| "run_cb cb (v # vs) acc = (case cb v acc of Inl e \<Rightarrow> Inl e | Inr acc' \<Rightarrow> run_cb cb vs acc')"

subsection \<open>collect (src/utils/collect.ts)\<close>

text \<open>
  \<open>collect\<close> is written for byte chunks, but takes what the source delivers. What it
  reads of a value is \<open>value.byteLength\<close>: the length of a \<open>Uint8Array\<close>, and \<open>undefined\<close>
  (\<open>None\<close>) for every other value. Reading a member of \<open>undefined\<close> or \<open>null\<close> throws; the
  drain loop never passes these on.
\<close>

fun byteLength :: "val \<Rightarrow> nat option" where
  "byteLength (VBytes bytes) = Some (length bytes)"
| "byteLength _ = None"

text \<open>
  The variables \<open>size\<close> and \<open>nextIndex\<close> hold a number or \<open>NaN\<close> (\<open>None\<close>). \<open>x += y\<close> adds two
  numbers; with \<open>y\<close> undefined, or \<open>x\<close> already \<open>NaN\<close>, the result is \<open>NaN\<close>.
\<close>

fun add_length :: "nat option \<Rightarrow> nat option \<Rightarrow> nat option" where
  "add_length (Some x) (Some y) = Some (x + y)"
| "add_length _ _ = None"

text \<open>The callback's variables are \<open>buffers\<close> and \<open>size\<close> (\<open>sz\<close> here).\<close>

definition collect_cb :: "val \<Rightarrow> val list \<times> nat option \<Rightarrow> js_error + val list \<times> nat option" where
  "collect_cb v acc =
     (if v = VUndefined \<or> v = VNull
      then Inl (TypeError ''Cannot read properties of undefined'')
      else case acc of (buffers, sz) \<Rightarrow> Inr (buffers @ [v], add_length sz (byteLength v)))"

text \<open>
  \<open>result.set(source, offset)\<close> takes a typed array or an array-like object. What it
  stores is: the bytes of a \<open>Uint8Array\<close>; for a string, which is array-like with its
  characters as elements, the number each character converts to (a digit to its value,
  anything else to 0); nothing for a number, a boolean or an object without \<open>length\<close>,
  which are array-likes of length 0. \<open>undefined\<close> and \<open>null\<close> are a \<open>TypeError\<close>. An offset
  that is \<open>NaN\<close> counts as 0. When the elements do not fit behind the offset, \<open>set\<close> throws
  a \<open>RangeError\<close>; otherwise it overwrites in place.
\<close>

definition element_of_char :: "char \<Rightarrow> byte" where
  "element_of_char c =
     (let n = of_char c :: nat in if 48 \<le> n \<and> n \<le> 57 then of_nat (n - 48) else 0)"

fun elements :: "val \<Rightarrow> byte list" where
  "elements (VBytes bytes) = bytes"
| "elements (VStr s) = map element_of_char s"
| "elements _ = []"

definition set_at :: "byte list \<Rightarrow> val \<Rightarrow> nat option \<Rightarrow> js_error + byte list" where
  "set_at result source offset =
     (let targetOffset = (case offset of Some i \<Rightarrow> i | None \<Rightarrow> 0)
      in if source = VUndefined \<or> source = VNull
         then Inl (TypeError ''Cannot convert undefined or null to object'')
         else if targetOffset + length (elements source) > length result
         then Inl (RangeError ''offset is out of bounds'')
         else Inr (take targetOffset result @ elements source
                   @ drop (targetOffset + length (elements source)) result))"

fun copy_buffers :: "val list \<Rightarrow> byte list \<Rightarrow> nat option \<Rightarrow> js_error + byte list" where
  "copy_buffers [] result nextIndex = Inr result"
| "copy_buffers (buffer # buffers) result nextIndex =
     (case set_at result buffer nextIndex of
        Inl e \<Rightarrow> Inl e
      | Inr result' \<Rightarrow> copy_buffers buffers result' (add_length nextIndex (byteLength buffer)))"

text \<open>\<open>new Uint8Array(size)\<close> is \<open>size\<close> zero bytes, and no byte when \<open>size\<close> is \<open>NaN\<close>.\<close>

definition new_Uint8Array :: "nat option \<Rightarrow> byte list" where
  "new_Uint8Array sz = replicate (case sz of Some n \<Rightarrow> n | None \<Rightarrow> 0) 0"

definition collect :: "iterable \<Rightarrow> (js_error + byte list) option" where
  "collect iterable =
     (case forAwait iterable collect_cb ([], Some 0) of
        None \<Rightarrow> None
      | Some (Inl e) \<Rightarrow> Some (Inl e)
      | Some (Inr ((buffers, sz), it)) \<Rightarrow>
          Some (copy_buffers buffers (new_Uint8Array sz) (Some 0)))"

section \<open>The HTTP shim\<close>

subsection \<open>fromStream (src/utils/fromStream.ts)\<close>

text \<open>
  A web \<open>ReadableStream\<close>: its native async iterator where the platform has one, and its
  reader, whose \<open>read()\<close> is written as the \<open>next\<close> of an iterator. After \<open>releaseLock()\<close>
  a reader rejects every read.
\<close>

record ReadableStream =
  stream_asyncIterator :: "iter option"
  getReader :: iter

primcorec released_reader :: "unit \<Rightarrow> iter" where
  "next_result (released_reader u) = Inl (TypeError ''Reader has no associated stream'')"
| "next_iter (released_reader u) = released_reader u"
| "return_iter (released_reader u) = None"

primcorec reader_iter :: "iter \<Rightarrow> iter" where
  "next_result (reader_iter reader) = next_result reader"
| "next_iter (reader_iter reader) = reader_iter (next_iter reader)"
| "return_iter (reader_iter reader) = Some (reader_iter (released_reader ()))"

definition fromStream :: "ReadableStream \<Rightarrow> iterable" where
  "fromStream stream =
     (case stream_asyncIterator stream of
        Some it \<Rightarrow>
          \<lparr>asyncIterator = Some it, syncIterator = None, nextMember = None, self = VObject 0\<rparr>
      | None \<Rightarrow>
          (let obj = reader_iter (getReader stream)
           in \<lparr>asyncIterator = Some obj, syncIterator = None, nextMember = Some obj,
               self = VObject 0\<rparr>))"

subsection \<open>request (src/http.ts)\<close>

text \<open>
  The argument object of \<open>request\<close> (\<open>onProgress\<close> is unused there; the field \<open>method\<close>
  is \<open>http_method\<close> here). An absent \<open>method\<close> or \<open>headers\<close> is \<open>None\<close>; an absent \<open>body\<close> has
  \<open>self = VUndefined\<close>.
\<close>

record request_args =
  url :: string
  http_method :: "string option"
  headers :: "(string \<times> string) list option"
  body :: iterable

text \<open>What \<open>fetch\<close> is given besides the URL, and what the shim reads of its response.
  \<open>res_body\<close> is \<open>None\<close> when \<open>res.body\<close> is null or has no \<open>getReader\<close>.\<close>

record fetch_init =
  init_method :: string
  init_headers :: "(string \<times> string) list"
  init_body :: val

record response =
  res_url :: string
  res_status :: int
  res_statusText :: string
  res_headers :: "(string \<times> string) list"
  res_body :: "ReadableStream option"
  res_arrayBuffer :: "js_error + byte list"

record git_response =
  out_url :: string
  out_method :: string
  statusCode :: int
  statusMessage :: string
  out_body :: iterable
  out_headers :: "(string \<times> string) list"

text \<open>
  The part of \<open>request\<close> after \<open>await fetch\<close>, for the outcome of the call and the state
  of the network \<open>w\<close> it left: the body sequence, the header object filled entry by
  entry, the result.
\<close>

definition respond ::
  "string \<Rightarrow> (js_error + response) \<times> 'w \<Rightarrow> (js_error + git_response) \<times> 'w" where
  "respond meth fetched =
     (case fetched of
        (Inl e, w') \<Rightarrow> (Inl e, w')
      | (Inr res, w') \<Rightarrow>
          (case (case res_body res of
                   Some stream \<Rightarrow> Inr (fromStream stream)
                 | None \<Rightarrow>
                     (case res_arrayBuffer res of
                        Inl e \<Rightarrow> Inl e
                      | Inr bytes \<Rightarrow> Inr (array_iterable [VBytes bytes]))) of
             Inl e \<Rightarrow> (Inl e, w')
           | Inr iter \<Rightarrow>
               (Inr \<lparr>out_url = res_url res, out_method = meth, statusCode = res_status res,
                     statusMessage = res_statusText res, out_body = iter,
                     out_headers = foldl (\<lambda>hs (key, val). AList.update key val hs) []
                                     (res_headers res)\<rparr>, w')))"

text \<open>
  \<open>fetch\<close> is the platform's: it is a parameter, acting on the state of the network.
  \<open>request\<close> does not return (\<open>None\<close>) when draining the body does not.
\<close>

definition request ::
  "('w \<Rightarrow> string \<Rightarrow> fetch_init \<Rightarrow> (js_error + response) \<times> 'w) \<Rightarrow> request_args \<Rightarrow> 'w
     \<Rightarrow> ((js_error + git_response) \<times> 'w) option" where
  "request fetch args w =
     (let meth = (case http_method args of None \<Rightarrow> ''GET'' | Some m \<Rightarrow> m);
          hdrs = (case headers args of None \<Rightarrow> [] | Some h \<Rightarrow> h)
      in case (if val_truthy (self (body args))
               then map_option (map_sum (\<lambda>e. e) VBytes) (collect (body args))
               else Some (Inr (self (body args)))) of
           None \<Rightarrow> None
         | Some (Inl e) \<Rightarrow> Some (Inl e, w)
         | Some (Inr body') \<Rightarrow>
             Some (respond meth
                     (fetch w (url args)
                        \<lparr>init_method = meth, init_headers = hdrs, init_body = body'\<rparr>)))"

text \<open>A \<open>fetch\<close> that also keeps the list of the calls made to it.\<close>

definition recording ::
  "('w \<Rightarrow> string \<Rightarrow> fetch_init \<Rightarrow> (js_error + response) \<times> 'w)
     \<Rightarrow> 'w \<times> (string \<times> fetch_init) list \<Rightarrow> string \<Rightarrow> fetch_init
     \<Rightarrow> (js_error + response) \<times> 'w \<times> (string \<times> fetch_init) list" where
  "recording fetch wl u init =
     (case fetch (fst wl) u init of (r, w') \<Rightarrow> (r, (w', snd wl @ [(u, init)])))"

text \<open>A network that is down, for examples.\<close>

definition offline :: "unit \<Rightarrow> string \<Rightarrow> fetch_init \<Rightarrow> (js_error + response) \<times> unit" where
  "offline w u init = (Inl (TypeError ''error sending request''), w)"

section \<open>The filesystem shim (src/dn-fs.ts)\<close>

subsection \<open>Errors\<close>

text \<open>
  \<open>message.match(/literal/)\<close> is truthy when the literal occurs somewhere in the message.
  The two patterns of the shim are alternatives of literals.
\<close>

fun occurs_in :: "string \<Rightarrow> string \<Rightarrow> bool" where
  "occurs_in pat [] = (pat = [])"
| "occurs_in pat (c # cs) = (prefix pat (c # cs) \<or> occurs_in pat cs)"

definition matches_not_found :: "string \<Rightarrow> bool" where
  "matches_not_found msg \<longleftrightarrow>
     occurs_in ''cannot find the file specified'' msg
     \<or> occurs_in ''cannot find the path specified'' msg
     \<or> occurs_in ''No such file or directory'' msg"

definition matches_exists_write :: "string \<Rightarrow> bool" where
  "matches_exists_write msg \<longleftrightarrow>
     occurs_in ''Cannot create a file when that file already exists'' msg"

definition matches_exists_mkdir :: "string \<Rightarrow> bool" where
  "matches_exists_mkdir msg \<longleftrightarrow>
     occurs_in ''Cannot create a file when that file already exists'' msg
     \<or> occurs_in ''File exists'' msg"

text \<open>The error the shim makes: \<open>new Error(`CODE: text, syscall 'path'`)\<close> with \<open>code\<close> and
  \<open>syscall\<close> set.\<close>

definition quoted :: "string \<Rightarrow> string" where
  "quoted path = [CHR 0x27] @ path @ [CHR 0x27]"

definition ENOENT :: "string \<Rightarrow> string \<Rightarrow> js_error" where
  "ENOENT sys path =
     \<lparr>name = ''Error'',
      message = ''ENOENT: no such file or directory, '' @ sys @ '' '' @ quoted path,
      code = Some ''ENOENT'', syscall = Some sys\<rparr>"

definition EEXIST :: "string \<Rightarrow> string \<Rightarrow> js_error" where
  "EEXIST sys path =
     \<lparr>name = ''Error'',
      message = ''EEXIST: file already exists, '' @ sys @ '' '' @ quoted path,
      code = Some ''EEXIST'', syscall = Some sys\<rparr>"

subsection \<open>Option objects\<close>

text \<open>
  \<open>o?.k\<close>: the own property, \<open>undefined\<close> when there is none or when \<open>o\<close> is not an
  object. \<open>o.k\<close> is the same except that it throws on \<open>undefined\<close> and \<open>null\<close>.
\<close>

fun get_prop :: "jsval \<Rightarrow> string \<Rightarrow> jsval" where
  "get_prop (JObj ps) k = (case map_of ps k of Some v \<Rightarrow> v | None \<Rightarrow> JUndefined)"
| "get_prop _ k = JUndefined"

definition member :: "jsval \<Rightarrow> string \<Rightarrow> js_error + jsval" where
  "member obj k =
     (if obj = JUndefined \<or> obj = JNull
      then Inl (TypeError (''Cannot read properties of undefined (reading '' @ quoted k @ '')''))
      else Inr (get_prop obj k))"

text \<open>
  \<open>{ ...a, ...b }\<close>: the properties of \<open>a\<close>, overwritten or followed by those of \<open>b\<close>.
  Spreading \<open>undefined\<close>, \<open>null\<close>, a number, a boolean or a function adds nothing. (Spreading
  a string would add its characters under index keys; options are never strings.)
\<close>

fun own_props :: "jsval \<Rightarrow> (string \<times> jsval) list" where
  "own_props (JObj ps) = ps"
| "own_props _ = []"

definition spread :: "jsval \<Rightarrow> jsval \<Rightarrow> jsval" where
  "spread a b =
     JObj (foldl (\<lambda>ps (k, v). AList.update k v ps) (own_props a) (own_props b))"

subsection \<open>The platform\<close>

text \<open>
  A JavaScript string in a file's content is a sequence of UTF-16 code units; bytes are
  a \<open>Uint8Array\<close>. \<open>typeof data === "string"\<close> is the case \<open>Text\<close>.
\<close>

type_synonym utf16 = "16 word list"

datatype content = Text utf16 | Binary "byte list"

text \<open>
  \<open>Deno.FileInfo\<close>, as far as the shim reads it. A timestamp is a \<open>Date\<close> or absent
  (\<open>null\<close>; a platform without the \<open>ctime\<close> field leaves it \<open>undefined\<close>, which \<open>??\<close> treats
  alike). A \<open>Date\<close> is its time value, the milliseconds since the epoch.
\<close>

datatype Date = Date (getTime: int)

record FileInfo =
  isFile :: bool
  isDirectory :: bool
  isSymlink :: bool
  atime :: "Date option"
  mtime :: "Date option"
  birthtime :: "Date option"
  ctime :: "Date option"

record NodeFileInfo = FileInfo +
  atimeMs :: "int option"
  mtimeMs :: "int option"
  ctimeMs :: "int option"
  birthtimeMs :: "int option"

text \<open>
  The primitives of Deno the shim calls are not part of the repository: they are
  parameters, acting on the state \<open>'w\<close> of the outside world. A primitive that rejects
  gives the error it rejects with and leaves the world as it was. \<open>Deno_remove\<close> and
  \<open>Deno_mkdir\<close> take the values of their options \<open>recursive\<close> (and \<open>mode\<close>); \<open>Deno_symlink\<close>
  takes \<open>oldpath\<close>, \<open>newpath\<close> and the option \<open>type\<close> when an options object is passed.
\<close>

record 'w Deno =
  Deno_readTextFile :: "string \<Rightarrow> 'w \<Rightarrow> js_error + utf16"
  Deno_readFile :: "string \<Rightarrow> 'w \<Rightarrow> js_error + byte list"
  Deno_writeTextFile :: "string \<Rightarrow> utf16 \<Rightarrow> 'w \<Rightarrow> js_error + 'w"
  Deno_writeFile :: "string \<Rightarrow> byte list \<Rightarrow> 'w \<Rightarrow> js_error + 'w"
  Deno_remove :: "string \<Rightarrow> jsval \<Rightarrow> 'w \<Rightarrow> js_error + 'w"
  Deno_mkdir :: "string \<Rightarrow> jsval \<Rightarrow> jsval \<Rightarrow> 'w \<Rightarrow> js_error + 'w"
  Deno_stat :: "string \<Rightarrow> 'w \<Rightarrow> js_error + FileInfo"
  Deno_lstat :: "string \<Rightarrow> 'w \<Rightarrow> js_error + FileInfo"
  Deno_readLink :: "string \<Rightarrow> 'w \<Rightarrow> js_error + string"
  Deno_symlink :: "string \<Rightarrow> string \<Rightarrow> jsval option \<Rightarrow> 'w \<Rightarrow> js_error + 'w"
  TextEncoder_encode :: "utf16 \<Rightarrow> byte list"
  TextDecoder_decode :: "byte list \<Rightarrow> utf16"

subsection \<open>The promise form of the operations\<close>

text \<open>\<open>Inl\<close> is the rejection. Each \<open>catch\<close> block looks at \<open>err.message\<close> only. The octal
  literals \<open>0o666\<close> and \<open>0o777\<close> are written out digit by digit.\<close>

definition readFile :: "'w Deno \<Rightarrow> string \<Rightarrow> jsval \<Rightarrow> 'w \<Rightarrow> js_error + content" where
  "readFile D path options w =
     (case (if get_prop options ''encoding'' = JStr ''utf8''
            then map_sum (\<lambda>e. e) Text (Deno_readTextFile D path w)
            else map_sum (\<lambda>e. e) Binary (Deno_readFile D path w)) of
        Inr result \<Rightarrow> Inr result
      | Inl err \<Rightarrow>
          if matches_not_found (message err) then Inl (ENOENT ''open'' path) else Inl err)"

definition writeFile :: "'w Deno \<Rightarrow> string \<Rightarrow> content \<Rightarrow> jsval \<Rightarrow> 'w \<Rightarrow> js_error + 'w" where
  "writeFile D path data options w =
     (let options = (if options = JUndefined
                     then JObj [(''encoding'', JStr ''utf8''), (''mode'', JNum (6 * 8 * 8 + 6 * 8 + 6)),
                                (''flag'', JStr ''w'')]
                     else options)
      in case (case member options ''encoding'' of
                 Inl e \<Rightarrow> Inl e
               | Inr encoding \<Rightarrow>
                  (case data of
                     Text str \<Rightarrow>
                       if encoding = JStr ''utf8'' then Deno_writeTextFile D path str w
                       else Deno_writeFile D path (TextEncoder_encode D str) w
                   | Binary buf \<Rightarrow>
                       if encoding = JStr ''utf8''
                       then Deno_writeTextFile D path (TextDecoder_decode D buf) w
                       else Deno_writeFile D path buf w)) of
           Inr w' \<Rightarrow> Inr w'
         | Inl err \<Rightarrow>
             if matches_exists_write (message err) then Inl (EEXIST ''write'' path) else Inl err)"

definition unlink :: "'w Deno \<Rightarrow> string \<Rightarrow> 'w \<Rightarrow> js_error + 'w" where
  "unlink D path w =
     (case Deno_remove D path (JBool False) w of
        Inr w' \<Rightarrow> Inr w'
      | Inl err \<Rightarrow>
          if matches_not_found (message err) then Inl (ENOENT ''open'' path) else Inl err)"

text \<open>JavaScript's \<open>parseInt(string)\<close> with no radix: leading white space is dropped, a sign
  is read, \<open>0x\<close> or \<open>0X\<close> selects radix 16 and anything else radix 10, and the longest
  prefix of digits is the number; with no digit the result is \<open>NaN\<close>. White space is,
  among the characters a \<open>char\<close> can be, tab, line feed, vertical tab, form feed, carriage
  return, space and no-break space. (The result is exact here; JavaScript rounds it
  to the nearest double beyond \<open>2^53\<close>.)\<close>

definition is_white :: "char \<Rightarrow> bool" where
  "is_white c \<longleftrightarrow>
     c \<in> set [CHR 0x09, CHR 0x0A, CHR 0x0B, CHR 0x0C, CHR 0x0D, CHR 0x20, CHR 0xA0]"

definition digit_of :: "char \<Rightarrow> nat" where
  "digit_of c =
     (let n = of_char c :: nat
      in if 48 \<le> n \<and> n \<le> 57 then n - 48
         else if 97 \<le> n \<and> n \<le> 122 then n - 87
         else if 65 \<le> n \<and> n \<le> 90 then n - 55
         else 36)"

definition parseInt :: "string \<Rightarrow> jsval" where
  "parseInt string =
     (let S = dropWhile is_white string;
          sign = (if take 1 S = ''-'' then - 1 else 1 :: int);
          S = (if take 1 S = ''-'' \<or> take 1 S = ''+'' then drop 1 S else S);
          R = (if take 2 S = ''0x'' \<or> take 2 S = ''0X'' then 16 else 10 :: nat);
          S = (if R = 16 then drop 2 S else S);
          Z = takeWhile (\<lambda>c. digit_of c < R) S
      in if Z = [] then JNaN
         else JNum (sign * int (foldl (\<lambda>n c. n * R + digit_of c) 0 Z)))"

definition mkdir :: "'w Deno \<Rightarrow> string \<Rightarrow> jsval \<Rightarrow> 'w \<Rightarrow> js_error + 'w" where
  "mkdir D path options w =
     (let options = (if options = JUndefined
                     then JObj [(''recursive'', JBool False), (''mode'', JNum (7 * 8 * 8 + 7 * 8 + 7))]
                     else options);
          merged = spread (JObj [(''recursive'', JBool False), (''mode'', JNum (7 * 8 * 8 + 7 * 8 + 7))]) options;
          recursive = get_prop merged ''recursive'';
          mode = get_prop merged ''mode''
      in case Deno_mkdir D path recursive
                (case mode of JStr str \<Rightarrow> parseInt str | _ \<Rightarrow> mode) w of
           Inr w' \<Rightarrow> Inr w'
         | Inl err \<Rightarrow>
             if matches_exists_mkdir (message err) then Inl (EEXIST ''mkdir'' path)
             else if matches_not_found (message err) then Inl (ENOENT ''open'' path)
             else Inl err)"

definition rmdir :: "'w Deno \<Rightarrow> string \<Rightarrow> jsval \<Rightarrow> 'w \<Rightarrow> js_error + 'w" where
  "rmdir D path options w =
     (let options = (if options = JUndefined then JObj [(''recursive'', JBool False)]
                     else options)
      in case (case member options ''recursive'' of
                 Inl e \<Rightarrow> Inl e
               | Inr recursive \<Rightarrow> Deno_remove D path recursive w) of
           Inr w' \<Rightarrow> Inr w'
         | Inl err \<Rightarrow>
             if matches_not_found (message err) then Inl (ENOENT ''open'' path) else Inl err)"

definition stat :: "'w Deno \<Rightarrow> string \<Rightarrow> jsval \<Rightarrow> 'w \<Rightarrow> js_error + FileInfo" where
  "stat D path options w =
     (case Deno_stat D path w of
        Inr result \<Rightarrow> Inr result
      | Inl err \<Rightarrow>
          if matches_not_found (message err) then Inl (ENOENT ''stat'' path) else Inl err)"

text \<open>\<open>new Date(x).getTime()\<close> for a \<open>Date\<close> \<open>x\<close> is the time value of \<open>x\<close>, and for \<open>null\<close> it
  is 0.\<close>

definition new_Date_getTime :: "Date option \<Rightarrow> int" where
  "new_Date_getTime x = (case x of Some d \<Rightarrow> getTime d | None \<Rightarrow> 0)"

definition lstat :: "'w Deno \<Rightarrow> string \<Rightarrow> 'w \<Rightarrow> js_error + NodeFileInfo" where
  "lstat D path w =
     (case Deno_lstat D path w of
        Inr result \<Rightarrow>
          (let result_ctime = (case ctime result of Some c \<Rightarrow> Some c | None \<Rightarrow> birthtime result)
           in Inr \<lparr>isFile = isFile result, isDirectory = isDirectory result,
                   isSymlink = isSymlink result,
                   atime = atime result, mtime = mtime result, birthtime = birthtime result,
                   ctime = result_ctime,
                   atimeMs = (if atime result \<noteq> None
                              then Some (new_Date_getTime (atime result)) else None),
                   mtimeMs = (if mtime result \<noteq> None
                              then Some (new_Date_getTime (mtime result)) else None),
                   ctimeMs = Some (new_Date_getTime result_ctime),
                   birthtimeMs = (if birthtime result \<noteq> None
                                  then Some (new_Date_getTime (birthtime result)) else None)\<rparr>)
      | Inl err \<Rightarrow>
          if matches_not_found (message err) then Inl (ENOENT ''open'' path) else Inl err)"

definition readlink :: "'w Deno \<Rightarrow> string \<Rightarrow> jsval \<Rightarrow> 'w \<Rightarrow> js_error + string" where
  "readlink D path options w =
     (case Deno_readLink D path w of
        Inr result \<Rightarrow> Inr result
      | Inl err \<Rightarrow>
          if matches_not_found (message err) then Inl (ENOENT ''open'' path) else Inl err)"

text \<open>\<open>symlink\<close> has no \<open>try\<close>: what \<open>Deno.symlink\<close> rejects with is what it rejects with.\<close>

definition symlink :: "'w Deno \<Rightarrow> string \<Rightarrow> string \<Rightarrow> jsval \<Rightarrow> 'w \<Rightarrow> js_error + 'w" where
  "symlink D target path type w =
     (let type = (if type = JUndefined then JStr ''file'' else type);
          oldPath = path;
          newPath = target
      in if truthy type then Deno_symlink D oldPath newPath (Some type) w
         else Deno_symlink D oldPath newPath None w)"

text \<open>Writing and then reading the same path, the read being given its own options.\<close>

definition write_then_read ::
  "'w Deno \<Rightarrow> string \<Rightarrow> content \<Rightarrow> jsval \<Rightarrow> jsval \<Rightarrow> 'w \<Rightarrow> js_error + content" where
  "write_then_read D path data write_options read_options w =
     (case writeFile D path data write_options w of
        Inl e \<Rightarrow> Inl e
      | Inr w' \<Rightarrow> readFile D path read_options w')"

subsection \<open>Callback resolution\<close>

definition resolve :: "jsval \<Rightarrow> jsval \<Rightarrow> jsval \<Rightarrow> js_error + jsval \<times> jsval" where
  "resolve defaults options cb =
     (let resolved_options = (if typeof options = ''function'' then defaults
                              else spread defaults options);
          cb = (if typeof cb = ''function'' then cb else options)
      in if \<not> truthy cb
         then Inl \<lparr>name = ''Error'', message = ''Callback function not defined'',
                   code = None, syscall = None\<rparr>
         else Inr (resolved_options, cb))"

text \<open>
  A call of the callback is \<open>cb(null, result)\<close> or \<open>cb(err)\<close>. What a user's function does
  when called is not the shim's: \<open>user f args\<close> says whether the function named \<open>f\<close>
  throws on these arguments, and what. Calling a value that is not a function throws a
  \<open>TypeError\<close> and calls nothing.
\<close>

datatype 'r cb_args = Result 'r | Failure js_error

record 'r outcome =
  invocations :: "(nat \<times> 'r cb_args) list"
  unhandled :: "js_error option"

definition invoke ::
  "(nat \<Rightarrow> 'r cb_args \<Rightarrow> js_error option) \<Rightarrow> jsval \<Rightarrow> 'r cb_args
     \<Rightarrow> (nat \<times> 'r cb_args) list \<times> js_error option" where
  "invoke user cb args =
     (case cb of
        JFun f \<Rightarrow> ([(f, args)], user f args)
      | _ \<Rightarrow> ([], Some (TypeError ''resolved.cb is not a function'')))"

text \<open>
  \<open>promise.then((result) => cb(null, result)).catch((err) => cb(err))\<close>: the \<open>catch\<close> also
  receives what the \<open>then\<close> handler throws; what the \<open>catch\<close> handler throws is an
  unhandled rejection.
\<close>

definition settle ::
  "(nat \<Rightarrow> 'r cb_args \<Rightarrow> js_error option) \<Rightarrow> jsval \<Rightarrow> js_error + 'r \<Rightarrow> 'r outcome" where
  "settle user cb promise =
     (case promise of
        Inr result \<Rightarrow>
          (case invoke user cb (Result result) of
             (calls, None) \<Rightarrow> \<lparr>invocations = calls, unhandled = None\<rparr>
           | (calls, Some err) \<Rightarrow>
               (case invoke user cb (Failure err) of
                  (calls', thrown) \<Rightarrow> \<lparr>invocations = calls @ calls', unhandled = thrown\<rparr>))
      | Inl err \<Rightarrow>
          (case invoke user cb (Failure err) of
             (calls, thrown) \<Rightarrow> \<lparr>invocations = calls, unhandled = thrown\<rparr>))"

text \<open>The same for an operation that changes the world and resolves with \<open>undefined\<close>.\<close>

definition settle_write ::
  "(nat \<Rightarrow> unit cb_args \<Rightarrow> js_error option) \<Rightarrow> jsval \<Rightarrow> js_error + 'w \<Rightarrow> 'w
     \<Rightarrow> unit outcome \<times> 'w" where
  "settle_write user cb promise w =
     (settle user cb (map_sum (\<lambda>e. e) (\<lambda>w'. ()) promise),
      case promise of Inr w' \<Rightarrow> w' | Inl e \<Rightarrow> w)"

subsection \<open>The callback form of the operations\<close>

text \<open>\<open>Inl\<close> is an error thrown synchronously, before anything is started. (\<open>readdir\<close> and
  \<open>chmod\<close>, which no property below is about, are left out.)\<close>

definition fs_readFile ::
  "'w Deno \<Rightarrow> (nat \<Rightarrow> content cb_args \<Rightarrow> js_error option) \<Rightarrow> string \<Rightarrow> jsval \<Rightarrow> jsval
     \<Rightarrow> 'w \<Rightarrow> js_error + content outcome" where
  "fs_readFile D user path options cb w =
     (case resolve (JObj [(''encoding'', JStr ''utf8'')]) options cb of
        Inl e \<Rightarrow> Inl e
      | Inr (resolved_options, resolved_cb) \<Rightarrow>
          Inr (settle user resolved_cb (readFile D path resolved_options w)))"

definition fs_writeFile ::
  "'w Deno \<Rightarrow> (nat \<Rightarrow> unit cb_args \<Rightarrow> js_error option) \<Rightarrow> string \<Rightarrow> content \<Rightarrow> jsval
     \<Rightarrow> jsval \<Rightarrow> 'w \<Rightarrow> js_error + unit outcome \<times> 'w" where
  "fs_writeFile D user path data options cb w =
     (case resolve (JObj [(''encoding'', JStr ''utf8''), (''mode'', JNum (6 * 8 * 8 + 6 * 8 + 6)),
                          (''flag'', JStr ''w'')]) options cb of
        Inl e \<Rightarrow> Inl e
      | Inr (resolved_options, resolved_cb) \<Rightarrow>
          Inr (settle_write user resolved_cb (writeFile D path data resolved_options w) w))"

definition fs_unlink ::
  "'w Deno \<Rightarrow> (nat \<Rightarrow> unit cb_args \<Rightarrow> js_error option) \<Rightarrow> string \<Rightarrow> jsval \<Rightarrow> 'w
     \<Rightarrow> js_error + unit outcome \<times> 'w" where
  "fs_unlink D user path cb w =
     (case resolve JNull JNull cb of
        Inl e \<Rightarrow> Inl e
      | Inr (resolved_options, resolved_cb) \<Rightarrow>
          Inr (settle_write user resolved_cb (unlink D path w) w))"

definition fs_mkdir ::
  "'w Deno \<Rightarrow> (nat \<Rightarrow> unit cb_args \<Rightarrow> js_error option) \<Rightarrow> string \<Rightarrow> jsval \<Rightarrow> jsval \<Rightarrow> 'w
     \<Rightarrow> js_error + unit outcome \<times> 'w" where
  "fs_mkdir D user path options cb w =
     (case resolve (JObj [(''recursive'', JBool False), (''mode'', JNum (7 * 8 * 8 + 7 * 8 + 7))])
             options cb of
        Inl e \<Rightarrow> Inl e
      | Inr (resolved_options, resolved_cb) \<Rightarrow>
          Inr (settle_write user resolved_cb (mkdir D path resolved_options w) w))"

definition fs_rmdir ::
  "'w Deno \<Rightarrow> (nat \<Rightarrow> unit cb_args \<Rightarrow> js_error option) \<Rightarrow> string \<Rightarrow> jsval \<Rightarrow> jsval \<Rightarrow> 'w
     \<Rightarrow> js_error + unit outcome \<times> 'w" where
  "fs_rmdir D user path options cb w =
     (case resolve (JObj [(''recursive'', JBool False)]) options cb of
        Inl e \<Rightarrow> Inl e
      | Inr (resolved_options, resolved_cb) \<Rightarrow>
          Inr (settle_write user resolved_cb (rmdir D path resolved_options w) w))"

definition fs_stat ::
  "'w Deno \<Rightarrow> (nat \<Rightarrow> FileInfo cb_args \<Rightarrow> js_error option) \<Rightarrow> string \<Rightarrow> jsval \<Rightarrow> jsval
     \<Rightarrow> 'w \<Rightarrow> js_error + FileInfo outcome" where
  "fs_stat D user path options cb w =
     (case resolve (JObj [(''bigint'', JBool False)]) options cb of
        Inl e \<Rightarrow> Inl e
      | Inr (resolved_options, resolved_cb) \<Rightarrow>
          Inr (settle user resolved_cb (stat D path resolved_options w)))"

definition fs_lstat ::
  "'w Deno \<Rightarrow> (nat \<Rightarrow> NodeFileInfo cb_args \<Rightarrow> js_error option) \<Rightarrow> string \<Rightarrow> jsval
     \<Rightarrow> 'w \<Rightarrow> js_error + NodeFileInfo outcome" where
  "fs_lstat D user path cb w =
     (case resolve JNull JNull cb of
        Inl e \<Rightarrow> Inl e
      | Inr (resolved_options, resolved_cb) \<Rightarrow>
          Inr (settle user resolved_cb (lstat D path w)))"

definition fs_readlink ::
  "'w Deno \<Rightarrow> (nat \<Rightarrow> string cb_args \<Rightarrow> js_error option) \<Rightarrow> string \<Rightarrow> jsval \<Rightarrow> jsval
     \<Rightarrow> 'w \<Rightarrow> js_error + string outcome" where
  "fs_readlink D user path options cb w =
     (case resolve (JObj [(''encoding'', JStr ''utf8'')]) options cb of
        Inl e \<Rightarrow> Inl e
      | Inr (resolved_options, resolved_cb) \<Rightarrow>
          Inr (settle user resolved_cb (readlink D path resolved_options w)))"

text \<open>\<open>fs.symlink\<close> wraps its third argument: \<open>resolve({ type: "file" }, { type }, cb)\<close>.\<close>

definition fs_symlink ::
  "'w Deno \<Rightarrow> (nat \<Rightarrow> unit cb_args \<Rightarrow> js_error option) \<Rightarrow> string \<Rightarrow> string \<Rightarrow> jsval
     \<Rightarrow> jsval \<Rightarrow> 'w \<Rightarrow> js_error + unit outcome \<times> 'w" where
  "fs_symlink D user target path type cb w =
     (case resolve (JObj [(''type'', JStr ''file'')]) (JObj [(''type'', type)]) cb of
        Inl e \<Rightarrow> Inl e
      | Inr (resolved_options, resolved_cb) \<Rightarrow>
          Inr (settle_write user resolved_cb
                 (symlink D target path (get_prop resolved_options ''type'') w) w))"

subsection \<open>A reference platform\<close>

text \<open>
  For examples, and for what depends on how the platform stores and encodes, one platform
  is written out: files in memory, answering as Deno does on Linux, with the UTF-8
  encoder and decoder of the Encoding standard that \<open>TextEncoder\<close> and \<open>TextDecoder\<close>
  implement.

  \<open>TextEncoder.encode\<close> first makes the string a sequence of scalar values: a surrogate
  pair is one code point, a lone surrogate becomes U+FFFD. Each scalar value is then
  written as one to four bytes.
\<close>

definition is_surrogate :: "16 word \<Rightarrow> bool" where
  "is_surrogate u \<longleftrightarrow> 0xD800 \<le> unat u \<and> unat u \<le> 0xDFFF"

definition surrogate_pair :: "16 word \<Rightarrow> 16 word \<Rightarrow> bool" where
  "surrogate_pair u v \<longleftrightarrow>
     0xD800 \<le> unat u \<and> unat u \<le> 0xDBFF \<and> 0xDC00 \<le> unat v \<and> unat v \<le> 0xDFFF"

fun scalar_values :: "utf16 \<Rightarrow> nat list" where
  "scalar_values [] = []"
| "scalar_values [u] = [if is_surrogate u then 0xFFFD else unat u]"
| "scalar_values (u # v # us) =
     (if surrogate_pair u v
      then (0x10000 + (unat u - 0xD800) * 0x400 + (unat v - 0xDC00)) # scalar_values us
      else (if is_surrogate u then 0xFFFD else unat u) # scalar_values (v # us))"

text \<open>A string is well formed when it has no lone surrogate; a scalar value is a code
  point that is not a surrogate.\<close>

fun well_formed :: "utf16 \<Rightarrow> bool" where
  "well_formed [] = True"
| "well_formed [u] = (\<not> is_surrogate u)"
| "well_formed (u # v # us) =
     (if surrogate_pair u v then well_formed us
      else \<not> is_surrogate u \<and> well_formed (v # us))"

definition is_scalar :: "nat \<Rightarrow> bool" where
  "is_scalar cp \<longleftrightarrow> cp < 0x110000 \<and> \<not> (0xD800 \<le> cp \<and> cp \<le> 0xDFFF)"

definition utf8_bytes :: "nat \<Rightarrow> byte list" where
  "utf8_bytes cp =
     (if cp < 0x80 then [of_nat cp]
      else if cp < 0x800 then [of_nat (0xC0 + cp div 64), of_nat (0x80 + cp mod 64)]
      else if cp < 0x10000
        then [of_nat (0xE0 + cp div 4096), of_nat (0x80 + cp div 64 mod 64),
              of_nat (0x80 + cp mod 64)]
      else [of_nat (0xF0 + cp div 262144), of_nat (0x80 + cp div 4096 mod 64),
            of_nat (0x80 + cp div 64 mod 64), of_nat (0x80 + cp mod 64)])"

definition utf8_encode :: "utf16 \<Rightarrow> byte list" where
  "utf8_encode str = concat (map utf8_bytes (scalar_values str))"

text \<open>
  The decoder of the Encoding standard, with its state (code point, bytes seen, bytes
  needed, lower and upper boundary) as arguments. A byte outside the boundaries gives
  U+FFFD and is read again in the initial state; so does an unfinished sequence at the
  end. The masks \<open>& 0x1F\<close>, \<open>& 0xF\<close>, \<open>& 0x7\<close> and \<open>& 0x3F\<close> are written as remainders.
\<close>

function utf8_decoder :: "nat \<Rightarrow> nat \<Rightarrow> nat \<Rightarrow> nat \<Rightarrow> nat \<Rightarrow> byte list \<Rightarrow> nat list" where
  "utf8_decoder cp seen needed lo hi [] = (if needed \<noteq> 0 then [0xFFFD] else [])"
| "utf8_decoder cp seen needed lo hi (b # bs) =
     (let n = unat b in
      if needed = 0 then
        if n \<le> 0x7F then n # utf8_decoder 0 0 0 0x80 0xBF bs
        else if 0xC2 \<le> n \<and> n \<le> 0xDF then utf8_decoder (n mod 32) 0 1 0x80 0xBF bs
        else if 0xE0 \<le> n \<and> n \<le> 0xEF
          then utf8_decoder (n mod 16) 0 2 (if n = 0xE0 then 0xA0 else 0x80)
                 (if n = 0xED then 0x9F else 0xBF) bs
        else if 0xF0 \<le> n \<and> n \<le> 0xF4
          then utf8_decoder (n mod 8) 0 3 (if n = 0xF0 then 0x90 else 0x80)
                 (if n = 0xF4 then 0x8F else 0xBF) bs
        else 0xFFFD # utf8_decoder 0 0 0 0x80 0xBF bs
      else if n < lo \<or> hi < n then 0xFFFD # utf8_decoder 0 0 0 0x80 0xBF (b # bs)
      else if seen + 1 \<noteq> needed
        then utf8_decoder (cp * 64 + n mod 64) (seen + 1) needed 0x80 0xBF bs
      else (cp * 64 + n mod 64) # utf8_decoder 0 0 0 0x80 0xBF bs)"
  by pat_completeness auto
termination
  by (relation "measures [\<lambda>(cp, seen, needed, lo, hi, bs). length bs,
                          \<lambda>(cp, seen, needed, lo, hi, bs). needed]") auto

text \<open>\<open>TextDecoder.decode\<close> (with the default \<open>ignoreBOM = false\<close>) drops one leading byte
  order mark and returns the code points as UTF-16.\<close>

definition utf16_units :: "nat \<Rightarrow> 16 word list" where
  "utf16_units cp =
     (if cp < 0x10000 then [of_nat cp]
      else [of_nat (0xD800 + (cp - 0x10000) div 0x400), of_nat (0xDC00 + (cp - 0x10000) mod 0x400)])"

definition utf8_decode :: "byte list \<Rightarrow> utf16" where
  "utf8_decode bytes =
     (let cps = utf8_decoder 0 0 0 0x80 0xBF bytes
      in concat (map utf16_units (if take 1 cps = [0xFEFF] then drop 1 cps else cps)))"

text \<open>\<open>Deno.readTextFile\<close> decodes the bytes of the file in the same way, U+FFFD for what
  is not UTF-8, but keeps a leading byte order mark.\<close>

definition utf8_lossy :: "byte list \<Rightarrow> utf16" where
  "utf8_lossy bytes = concat (map utf16_units (utf8_decoder 0 0 0 0x80 0xBF bytes))"

text \<open>
  The world of the reference platform: what is at each path (names are compared as
  written and there is no directory tree), and the timestamps the platform would report
  for it. A directory remembers the mode it was created with.
\<close>

datatype node = File "byte list" | Dir jsval | Link string

record timestamps =
  t_atime :: "Date option"
  t_mtime :: "Date option"
  t_birthtime :: "Date option"
  t_ctime :: "Date option"

record world =
  nodes :: "string \<Rightarrow> node option"
  stamps :: "string \<Rightarrow> timestamps"

definition os_error :: "string \<Rightarrow> string \<Rightarrow> js_error" where
  "os_error cls msg = \<lparr>name = cls, message = msg, code = None, syscall = None\<rparr>"

definition NotFound :: js_error where
  "NotFound = os_error ''NotFound'' ''No such file or directory (os error 2)''"

definition AlreadyExists :: js_error where
  "AlreadyExists = os_error ''AlreadyExists'' ''File exists (os error 17)''"

definition IsADirectory :: js_error where
  "IsADirectory = os_error ''Error'' ''Is a directory (os error 21)''"

definition InvalidArgument :: js_error where
  "InvalidArgument = os_error ''Error'' ''Invalid argument (os error 22)''"

definition TooManyLinks :: js_error where
  "TooManyLinks = os_error ''Error'' ''Too many levels of symbolic links (os error 40)''"

text \<open>Following symbolic links from a path, at most \<open>n\<close> of them.\<close>

fun walk :: "nat \<Rightarrow> (string \<Rightarrow> node option) \<Rightarrow> string \<Rightarrow> js_error + string" where
  "walk 0 ns path = Inl TooManyLinks"
| "walk (Suc n) ns path =
     (case ns path of Some (Link to) \<Rightarrow> walk n ns to | _ \<Rightarrow> Inr path)"

definition mem_readFile :: "string \<Rightarrow> world \<Rightarrow> js_error + byte list" where
  "mem_readFile path w =
     (case walk 40 (nodes w) path of
        Inl e \<Rightarrow> Inl e
      | Inr p \<Rightarrow>
         (case nodes w p of
            None \<Rightarrow> Inl NotFound
          | Some (File bytes) \<Rightarrow> Inr bytes
          | Some _ \<Rightarrow> Inl IsADirectory))"

definition mem_writeFile :: "string \<Rightarrow> byte list \<Rightarrow> world \<Rightarrow> js_error + world" where
  "mem_writeFile path bytes w =
     (case walk 40 (nodes w) path of
        Inl e \<Rightarrow> Inl e
      | Inr p \<Rightarrow>
         (case nodes w p of
            Some (Dir m) \<Rightarrow> Inl IsADirectory
          | _ \<Rightarrow> Inr (w\<lparr>nodes := (nodes w)(p := Some (File bytes))\<rparr>)))"

definition mem_remove :: "string \<Rightarrow> jsval \<Rightarrow> world \<Rightarrow> js_error + world" where
  "mem_remove path recursive w =
     (case nodes w path of
        None \<Rightarrow> Inl NotFound
      | Some n \<Rightarrow> Inr (w\<lparr>nodes := (nodes w)(path := None)\<rparr>))"

definition mem_mkdir :: "string \<Rightarrow> jsval \<Rightarrow> jsval \<Rightarrow> world \<Rightarrow> js_error + world" where
  "mem_mkdir path recursive mode w =
     (case nodes w path of
        None \<Rightarrow> Inr (w\<lparr>nodes := (nodes w)(path := Some (Dir mode))\<rparr>)
      | Some (Dir m) \<Rightarrow> if truthy recursive then Inr w else Inl AlreadyExists
      | Some _ \<Rightarrow> Inl AlreadyExists)"

definition file_info :: "node \<Rightarrow> timestamps \<Rightarrow> FileInfo" where
  "file_info n ts =
     \<lparr>isFile = (case n of File b \<Rightarrow> True | _ \<Rightarrow> False),
      isDirectory = (case n of Dir m \<Rightarrow> True | _ \<Rightarrow> False),
      isSymlink = (case n of Link to \<Rightarrow> True | _ \<Rightarrow> False),
      atime = t_atime ts, mtime = t_mtime ts, birthtime = t_birthtime ts, ctime = t_ctime ts\<rparr>"

definition mem_lstat :: "string \<Rightarrow> world \<Rightarrow> js_error + FileInfo" where
  "mem_lstat path w =
     (case nodes w path of
        None \<Rightarrow> Inl NotFound
      | Some n \<Rightarrow> Inr (file_info n (stamps w path)))"

definition mem_stat :: "string \<Rightarrow> world \<Rightarrow> js_error + FileInfo" where
  "mem_stat path w =
     (case walk 40 (nodes w) path of Inl e \<Rightarrow> Inl e | Inr p \<Rightarrow> mem_lstat p w)"

definition mem_readLink :: "string \<Rightarrow> world \<Rightarrow> js_error + string" where
  "mem_readLink path w =
     (case nodes w path of
        None \<Rightarrow> Inl NotFound
      | Some (Link to) \<Rightarrow> Inr to
      | Some _ \<Rightarrow> Inl InvalidArgument)"

text \<open>
  \<open>Deno.symlink(oldpath, newpath, { type })\<close> creates \<open>newpath\<close> as a symbolic link to
  \<open>oldpath\<close>. The \<open>type\<close> matters on Windows only, but it is checked everywhere: it is
  absent (or \<open>undefined\<close> or \<open>null\<close>) or one of \<open>"file"\<close>, \<open>"dir"\<close> and \<open>"junction"\<close>; with
  anything else the call is rejected with a \<open>TypeError\<close> and nothing is created.
\<close>

definition valid_symlink_type :: "jsval option \<Rightarrow> bool" where
  "valid_symlink_type type \<longleftrightarrow>
     (case type of
        None \<Rightarrow> True
      | Some t \<Rightarrow> t \<in> set [JUndefined, JNull, JStr ''file'', JStr ''dir'', JStr ''junction''])"

definition mem_symlink :: "string \<Rightarrow> string \<Rightarrow> jsval option \<Rightarrow> world \<Rightarrow> js_error + world" where
  "mem_symlink oldpath newpath type w =
     (if \<not> valid_symlink_type type then Inl (TypeError ''Invalid symlink type'')
      else case nodes w newpath of
          None \<Rightarrow> Inr (w\<lparr>nodes := (nodes w)(newpath := Some (Link oldpath))\<rparr>)
        | Some n \<Rightarrow> Inl AlreadyExists)"

definition mem :: "world Deno" where
  "mem =
     \<lparr>Deno_readTextFile = (\<lambda>path w. map_sum (\<lambda>e. e) utf8_lossy (mem_readFile path w)),
      Deno_readFile = mem_readFile,
      Deno_writeTextFile = (\<lambda>path str w. mem_writeFile path (utf8_encode str) w),
      Deno_writeFile = mem_writeFile,
      Deno_remove = mem_remove,
      Deno_mkdir = mem_mkdir,
      Deno_stat = mem_stat,
      Deno_lstat = mem_lstat,
      Deno_readLink = mem_readLink,
      Deno_symlink = mem_symlink,
      TextEncoder_encode = utf8_encode,
      TextDecoder_decode = utf8_decode\<rparr>"

text \<open>The world with nothing in it, and no timestamp known for any path.\<close>

definition empty_world :: world where
  "empty_world =
     \<lparr>nodes = (\<lambda>path. None),
      stamps = (\<lambda>path. \<lparr>t_atime = None, t_mtime = None, t_birthtime = None, t_ctime = None\<rparr>)\<rparr>"

text \<open>A world with one empty file, of which the platform knows when it was read and
  written, but not when it was created (a file system that does not record it).\<close>

definition no_birthtime :: world where
  "no_birthtime =
     \<lparr>nodes = (\<lambda>path. None)(''f'' := Some (File [])),
      stamps = (\<lambda>path. \<lparr>t_atime = Some (Date 1700000000000), t_mtime = Some (Date 1600000000000),
                          t_birthtime = None, t_ctime = None\<rparr>)\<rparr>"

section \<open>Properties of the iteration utilities\<close>

subsection \<open>The drain loop\<close>

text \<open>
  On a source that completes at call \<open>n\<close> the loop returns: it has run the callback over
  the truthy values of the calls 0 to \<open>n\<close>, in order, and leaves the iterator after
  \<open>n + 1\<close> calls (or it has stopped at the callback's first exception).
\<close>

lemma forAwait_loop_run:
  "completes_at n it \<Longrightarrow>
   forAwait_loop cb it acc =
     Some (map_sum (\<lambda>e. e) (\<lambda>acc'. (acc', after_next (Suc n) it)) (run_cb cb (delivered n it) acc))"
proof (induction n arbitrary: it acc)
  case 0
  then show ?case
    by (subst forAwait_loop.simps) (auto simp: delivered_def split: sum.splits)
next
  case (Suc n)
  from Suc.prems obtain r where r: "next_result it = Inr r" "\<not> step_done r"
    and rest: "completes_at n (next_iter it)"
    by (auto split: sum.splits)
  show ?case
  proof (cases "val_truthy (step_value r)")
    case True
    show ?thesis
    proof (cases "cb (step_value r) acc")
      case (Inl e)
      with r True show ?thesis
        by (subst forAwait_loop.simps) (simp add: delivered_def)
    next
      case (Inr acc')
      with r True Suc.IH [OF rest, of acc'] show ?thesis
        by (subst forAwait_loop.simps) (simp add: delivered_def)
    qed
  next
    case False
    with r Suc.IH [OF rest, of acc] show ?thesis
      by (subst forAwait_loop.simps) (simp add: delivered_def)
  qed
qed






subsection \<open>The one-element iterator\<close>

lemma after_call_empty_queue: "after_call c (queue_iter []) = Inr (queue_iter [])"
  by (cases c) (simp_all add: pop_def)

lemma after_calls_empty_queue: "after_calls cs (queue_iter []) = Inr (queue_iter [])"
  by (induction cs) (simp_all add: after_call_empty_queue)

text \<open>
  C10. The first \<open>next()\<close> of \<open>fromValue(v)\<close> resolves with \<open>done = false\<close> and the value
  \<open>v\<close>. After any first call, \<open>next()\<close> or \<open>return()\<close>, and whatever calls follow it, the
  queue is empty, and on the empty queue \<open>next()\<close> resolves with \<open>done = true\<close> and no
  value: the value is delivered at most once and the iterator does not start again.
\<close>

theorem fromValue_delivers_once:
  "next_result (fromValue v) = Inr \<lparr>step_value = v, step_done = False\<rparr>
   \<and> after_calls (c # cs) (fromValue v) = Inr (queue_iter [])
   \<and> next_result (queue_iter []) = Inr \<lparr>step_value = VUndefined, step_done = True\<rparr>"
  by (cases c) (simp_all add: fromValue_def pop_def after_calls_empty_queue)

subsection \<open>Collecting chunks\<close>

text \<open>
  \<open>getIterator\<close> takes the async iterator of a source that has one, whatever else the
  source has.
\<close>

lemma getIterator_async:
  "asyncIterator iterable = Some it \<Longrightarrow> self iterable \<noteq> VUndefined \<Longrightarrow> self iterable \<noteq> VNull
   \<Longrightarrow> getIterator iterable = Inr it"
  by (simp add: getIterator_def)

lemma getIterator_sync:
  "asyncIterator iterable = None \<Longrightarrow> syncIterator iterable = Some it
   \<Longrightarrow> self iterable \<noteq> VUndefined \<Longrightarrow> self iterable \<noteq> VNull
   \<Longrightarrow> getIterator iterable = Inr it"
  by (simp add: getIterator_def)

text \<open>
  The callback of \<open>collect\<close> does not throw on a truthy value: it appends the value and
  adds its \<open>byteLength\<close>. So on every source that completes \<open>collect\<close> returns what the
  copy loop makes of all delivered values.
\<close>

lemma run_cb_collect_any:
  "\<forall>v \<in> set vs. val_truthy v \<Longrightarrow>
   run_cb collect_cb vs (buffers, sz) =
     Inr (buffers @ vs, foldl (\<lambda>s v. add_length s (byteLength v)) sz vs)"
proof (induction vs arbitrary: buffers sz)
  case Nil
  then show ?case by simp
next
  case (Cons v vs)
  from Cons.prems have v: "v \<noteq> VUndefined" "v \<noteq> VNull" by auto
  from Cons.prems have "\<forall>v \<in> set vs. val_truthy v" by simp
  from Cons.IH [OF this] v show ?case by (simp add: collect_cb_def)
qed

lemma collect_completed:
  assumes "getIterator iterable = Inr it" and "completes_at n it"
  shows "collect iterable =
     Some (copy_buffers (delivered n it)
             (new_Uint8Array (foldl (\<lambda>s v. add_length s (byteLength v)) (Some 0) (delivered n it)))
             (Some 0))"
proof -
  have "\<forall>v \<in> set (delivered n it). val_truthy v" by (simp add: delivered_def)
  from run_cb_collect_any [OF this, of "[]" "Some 0"]
  have "forAwait_loop collect_cb it ([], Some 0) =
      Some (Inr ((delivered n it,
                  foldl (\<lambda>s v. add_length s (byteLength v)) (Some 0) (delivered n it)),
                 after_next (Suc n) it))"
    using forAwait_loop_run [OF assms(2), of collect_cb "([], Some 0)"] by simp
  then show ?thesis
    by (simp add: collect_def forAwait_def assms(1))
qed

lemma size_of_chunks:
  "foldl (\<lambda>s v. add_length s (byteLength v)) (Some sz) (map VBytes chunks) =
     Some (sz + length (concat chunks))"
  by (induction chunks arbitrary: sz) (simp_all add: ac_simps)

lemma copy_buffers_concat:
  "length result = nextIndex + length (concat chunks) + k \<Longrightarrow>
   copy_buffers (map VBytes chunks) result (Some nextIndex) =
     Inr (take nextIndex result @ concat chunks @ drop (nextIndex + length (concat chunks)) result)"
proof (induction chunks arbitrary: result nextIndex)
  case Nil
  then show ?case by simp
next
  case (Cons b bs)
  let ?r = "take nextIndex result @ b @ drop (nextIndex + length b) result"
  have fit: "set_at result (VBytes b) (Some nextIndex) = Inr ?r"
    using Cons.prems by (simp add: set_at_def)
  have len: "length ?r = (nextIndex + length b) + length (concat bs) + k"
    using Cons.prems by simp
  show ?case
    using Cons.IH [OF len] Cons.prems
    by (simp add: fit ac_simps)
qed

lemma collect_finite:
  assumes "getIterator iterable = Inr it"
    and "completes_at n it"
    and "delivered n it = map VBytes chunks"
  shows "collect iterable = Some (Inr (concat chunks))"
proof -
  have copy: "copy_buffers (map VBytes chunks) (replicate (length (concat chunks)) 0) (Some 0)
      = Inr (concat chunks)"
    using copy_buffers_concat [of "replicate (length (concat chunks)) 0" 0 chunks 0]
    by simp
  show ?thesis
    by (simp add: collect_completed [OF assms(1,2)] assms(3) size_of_chunks new_Uint8Array_def copy)
qed


text \<open>
  C6. For an async source that completes (at some call \<open>n\<close>) and whose delivered values
  are the byte chunks \<open>chunks\<close>, \<open>collect\<close> returns one buffer: its length is the sum of
  the chunk lengths and its content is the chunks concatenated in delivery order.
\<close>

theorem collect_concatenates:
  assumes "asyncIterator iterable = Some it"
    and "self iterable \<noteq> VUndefined" and "self iterable \<noteq> VNull"
    and "completes_at n it"
    and "delivered n it = map VBytes chunks"
  shows "\<exists>buf. collect iterable = Some (Inr buf)
           \<and> length buf = sum_list (map length chunks)
           \<and> buf = concat chunks"
  using collect_finite [OF getIterator_async [OF assms(1-3)] assms(4,5)]
  by (simp add: length_concat)

theorem collect_concatenates_witness:
  "collect (async_source [Inr \<lparr>step_value = VBytes [1, 2], step_done = False\<rparr>,
                          Inr \<lparr>step_value = VBytes [], step_done = False\<rparr>,
                          Inr \<lparr>step_value = VBytes [3], step_done = False\<rparr>])
     = Some (Inr [1, 2, 3])"
  using collect_concatenates [of
      "async_source [Inr \<lparr>step_value = VBytes [1, 2], step_done = False\<rparr>,
                     Inr \<lparr>step_value = VBytes [], step_done = False\<rparr>,
                     Inr \<lparr>step_value = VBytes [3], step_done = False\<rparr>]"
      "script_iter [Inr \<lparr>step_value = VBytes [1, 2], step_done = False\<rparr>,
                    Inr \<lparr>step_value = VBytes [], step_done = False\<rparr>,
                    Inr \<lparr>step_value = VBytes [3], step_done = False\<rparr>]"
      "Suc (Suc (Suc 0))" "[[1, 2], [], [3]]"]
  by (simp add: async_source_def delivered_def)

text \<open>
  Values that are not byte chunks have no \<open>byteLength\<close>, so \<open>size\<close> is \<open>NaN\<close> and the result
  buffer is empty. A \<open>Uint8Array\<close> given as the source itself is iterated byte by byte:
  its bytes are numbers, nothing is copied, and the result is the empty buffer. A
  string is iterated character by character, and \<open>set\<close> throws on the first one.
\<close>

lemma collect_not_chunks:
  "collect (typed_array_iterable [1, 0, 2]) = Some (Inr [])
   \<and> collect (string_iterable ''ab'') = Some (Inl (RangeError ''offset is out of bounds''))"
  using collect_completed [of "typed_array_iterable [1, 0, 2]"
      "array_iter [VNum 1, VNum 0, VNum 2]" "Suc (Suc (Suc 0))"]
    collect_completed [of "string_iterable ''ab''" "array_iter [VStr ''a'', VStr ''b'']" "Suc (Suc 0)"]
  by (simp add: typed_array_iterable_def string_iterable_def getIterator_def delivered_def
      new_Uint8Array_def set_at_def)

section \<open>Properties of the HTTP shim\<close>






text \<open>
  The type of \<open>body\<close> is \<open>BodyInit\<close>, which a \<open>Uint8Array\<close> satisfies. Such a body is not a
  source of chunks: it is drained too, byte by byte, and \<open>fetch\<close> is called with the empty
  buffer.
\<close>

lemma request_typed_array_body:
  "request (recording offline)
      \<lparr>url = ''u'', http_method = None, headers = None, body = typed_array_iterable [1, 0, 2]\<rparr>
      ((), [])
     = Some (Inl (TypeError ''error sending request''),
             ((), [(''u'', \<lparr>init_method = ''GET'', init_headers = [], init_body = VBytes []\<rparr>)]))"
  using collect_not_chunks
  by (simp add: request_def recording_def offline_def respond_def typed_array_iterable_def)

section \<open>Properties of the filesystem shim\<close>

subsection \<open>Error mapping\<close>

text \<open>
  What every platform gives: when the primitive rejects with a message that matches the
  not-found patterns, the shim rejects with its own \<open>ENOENT\<close> error; any other rejection
  is passed on as it is.
\<close>

lemma shim_not_found_general:
  assumes "matches_not_found (message err)"
  shows "Deno_readFile D path w = Inl err \<Longrightarrow> get_prop options ''encoding'' \<noteq> JStr ''utf8'' \<Longrightarrow>
           readFile D path options w = Inl (ENOENT ''open'' path)"
    and "Deno_readTextFile D path w = Inl err \<Longrightarrow> get_prop options ''encoding'' = JStr ''utf8'' \<Longrightarrow>
           readFile D path options w = Inl (ENOENT ''open'' path)"
    and "Deno_stat D path w = Inl err \<Longrightarrow> stat D path options w = Inl (ENOENT ''stat'' path)"
    and "Deno_lstat D path w = Inl err \<Longrightarrow> lstat D path w = Inl (ENOENT ''open'' path)"
    and "Deno_readLink D path w = Inl err \<Longrightarrow> readlink D path options w = Inl (ENOENT ''open'' path)"
    and "Deno_remove D path (JBool False) w = Inl err \<Longrightarrow> unlink D path w = Inl (ENOENT ''open'' path)"
    and "Deno_remove D path r w = Inl err \<Longrightarrow> member (if options = JUndefined then JObj [(''recursive'', JBool False)] else options) ''recursive'' = Inr r \<Longrightarrow>
           rmdir D path options w = Inl (ENOENT ''open'' path)"
  using assms
  by (simp_all add: readFile_def stat_def lstat_def readlink_def unlink_def rmdir_def Let_def)

lemma shim_other_error_unchanged:
  assumes "\<not> matches_not_found (message err)"
  shows "Deno_readFile D path w = Inl err \<Longrightarrow> get_prop options ''encoding'' \<noteq> JStr ''utf8'' \<Longrightarrow>
           readFile D path options w = Inl err"
    and "Deno_readTextFile D path w = Inl err \<Longrightarrow> get_prop options ''encoding'' = JStr ''utf8'' \<Longrightarrow>
           readFile D path options w = Inl err"
    and "Deno_stat D path w = Inl err \<Longrightarrow> stat D path options w = Inl err"
    and "Deno_lstat D path w = Inl err \<Longrightarrow> lstat D path w = Inl err"
    and "Deno_readLink D path w = Inl err \<Longrightarrow> readlink D path options w = Inl err"
    and "Deno_remove D path (JBool False) w = Inl err \<Longrightarrow> unlink D path w = Inl err"
    and "Deno_remove D path r w = Inl err \<Longrightarrow> member (if options = JUndefined then JObj [(''recursive'', JBool False)] else options) ''recursive'' = Inr r \<Longrightarrow>
           rmdir D path options w = Inl err"
  using assms
  by (simp_all add: readFile_def stat_def lstat_def readlink_def unlink_def rmdir_def Let_def)

lemma walk_here: "(\<And>to. ns path \<noteq> Some (Link to)) \<Longrightarrow> walk 40 ns path = Inr path"
  by (simp add: numeral_eq_Suc split: option.splits node.splits)

lemma matches_NotFound: "matches_not_found (message NotFound)"
  by (simp add: NotFound_def os_error_def matches_not_found_def)

text \<open>
  C1. On a path that does not exist, \<open>unlink\<close>, \<open>rmdir\<close>, \<open>lstat\<close> and \<open>readlink\<close> do
  reject with the code \<open>ENOENT\<close>, but the operation the error names, in \<open>syscall\<close> and in the
  message, is \<open>open\<close> for all four. \<open>stat\<close>, next to them, names itself.
\<close>

theorem missing_path_syscall_is_open:
  "unlink mem ''missing'' empty_world = Inl (ENOENT ''open'' ''missing'')
   \<and> rmdir mem ''missing'' JUndefined empty_world = Inl (ENOENT ''open'' ''missing'')
   \<and> lstat mem ''missing'' empty_world = Inl (ENOENT ''open'' ''missing'')
   \<and> readlink mem ''missing'' JUndefined empty_world = Inl (ENOENT ''open'' ''missing'')
   \<and> stat mem ''missing'' JUndefined empty_world = Inl (ENOENT ''stat'' ''missing'')
   \<and> syscall (ENOENT ''open'' ''missing'') = Some ''open''
   \<and> message (ENOENT ''open'' ''missing'')
       = ''ENOENT: no such file or directory, open '' @ [CHR 0x27] @ ''missing'' @ [CHR 0x27]"
  by (simp add: unlink_def rmdir_def lstat_def readlink_def stat_def member_def mem_def
      mem_remove_def mem_lstat_def mem_readLink_def mem_stat_def walk_here empty_world_def
      matches_NotFound ENOENT_def quoted_def)

subsection \<open>Timestamps of lstat\<close>

text \<open>
  What \<open>lstat\<close> adds to the platform's record: the three guarded fields are there exactly
  when their base field is, with its time value; \<open>ctime\<close> falls back to \<open>birthtime\<close>; and
  \<open>ctimeMs\<close> is always set, to 0 when there is neither.
\<close>

lemma lstat_derived_fields:
  assumes "Deno_lstat D path w = Inr info"
  shows "\<exists>r. lstat D path w = Inr r
      \<and> atimeMs r = map_option getTime (atime info)
      \<and> mtimeMs r = map_option getTime (mtime info)
      \<and> birthtimeMs r = map_option getTime (birthtime info)
      \<and> ctime r = (case ctime info of Some c \<Rightarrow> Some c | None \<Rightarrow> birthtime info)
      \<and> ctimeMs r = Some (case ctime r of Some c \<Rightarrow> getTime c | None \<Rightarrow> 0)"
  using assms
  by (auto simp: lstat_def new_Date_getTime_def Let_def split: option.splits)

text \<open>
  C3. For a file of which the platform reports access and modification time but
  neither \<open>birthtime\<close> nor \<open>ctime\<close>, \<open>lstat\<close> returns a record without \<open>ctime\<close> but with
  \<open>ctimeMs = 0\<close>: this derived field is present although its base field is absent.
\<close>

theorem lstat_ctimeMs_without_ctime:
  "lstat mem ''f'' no_birthtime =
     Inr \<lparr>isFile = True, isDirectory = False, isSymlink = False,
          atime = Some (Date 1700000000000), mtime = Some (Date 1600000000000),
          birthtime = None, ctime = None,
          atimeMs = Some 1700000000000, mtimeMs = Some 1600000000000, ctimeMs = Some 0,
          birthtimeMs = None\<rparr>"
  by (simp add: lstat_def mem_def mem_lstat_def no_birthtime_def file_info_def
      new_Date_getTime_def)

subsection \<open>symlink\<close>

text \<open>Whatever the platform: \<open>symlink(target, path)\<close> hands \<open>path\<close> to \<open>Deno.symlink\<close> as
  \<open>oldpath\<close> and \<open>target\<close> as \<open>newpath\<close>.\<close>

lemma symlink_passes_path_as_oldpath:
  "symlink D target path type w =
     Deno_symlink D path target
       (if type = JUndefined then Some (JStr ''file'') else if truthy type then Some type else None) w"
  by (simp add: symlink_def Let_def)

text \<open>
  C4. \<open>symlink("target", "link", "file")\<close> in the empty world: afterwards there is a link
  at \<open>target\<close>, it points to \<open>link\<close>, and there is nothing at \<open>link\<close>.
\<close>

theorem symlink_link_is_at_target:
  "symlink mem ''target'' ''link'' (JStr ''file'') empty_world =
     Inr (empty_world\<lparr>nodes := (nodes empty_world)(''target'' := Some (Link ''link''))\<rparr>)
   \<and> nodes (empty_world\<lparr>nodes := (nodes empty_world)(''target'' := Some (Link ''link''))\<rparr>) ''link''
       = None
   \<and> readlink mem ''target'' JUndefined
        (empty_world\<lparr>nodes := (nodes empty_world)(''target'' := Some (Link ''link''))\<rparr>)
       = Inr ''link''"
  by (simp add: symlink_def mem_def mem_symlink_def valid_symlink_type_def readlink_def
      mem_readLink_def empty_world_def)

subsection \<open>The mode of mkdir\<close>

text \<open>A number is passed on as it is; a string is passed through \<open>parseInt\<close>.\<close>

lemma mkdir_numeric_mode:
  "Deno_mkdir D path (JBool False) (JNum n) w = Inr w' \<Longrightarrow>
   mkdir D path (JObj [(''mode'', JNum n)]) w = Inr w'"
  by (simp add: mkdir_def spread_def)

lemma mkdir_string_mode:
  "Deno_mkdir D path (JBool False) (parseInt str) w = Inr w' \<Longrightarrow>
   mkdir D path (JObj [(''mode'', JStr str)]) w = Inr w'"
  by (simp add: mkdir_def spread_def)

text \<open>
  C5. \<open>parseInt\<close> has no radix argument here, so the string \<open>"777"\<close> is read in base ten:
  the directory is created with mode 777, while the number \<open>0o777\<close> creates it with mode
  511.
\<close>

theorem mkdir_string_mode_is_read_as_decimal:
  "parseInt ''777'' = JNum 777
   \<and> mkdir mem ''d'' (JObj [(''mode'', JStr ''777'')]) empty_world =
       Inr (empty_world\<lparr>nodes := (nodes empty_world)(''d'' := Some (Dir (JNum 777)))\<rparr>)
   \<and> mkdir mem ''d'' (JObj [(''mode'', JNum (7 * 8 * 8 + 7 * 8 + 7))]) empty_world =
       Inr (empty_world\<lparr>nodes := (nodes empty_world)(''d'' := Some (Dir (JNum 511)))\<rparr>)
   \<and> (777 :: int) \<noteq> 7 * 8 * 8 + 7 * 8 + 7"
  by (simp add: mkdir_def spread_def parseInt_def is_white_def digit_of_def mem_def mem_mkdir_def
      empty_world_def)

subsection \<open>Callback resolution\<close>

text \<open>
  Where \<open>resolve\<close> does what is meant: a function in the options position and none behind
  it is the callback, with the default options; options followed by a function are
  merged over the defaults; with nothing truthy in either position it throws. A function
  that is called and does not throw is called once.
\<close>

lemma resolve_callback_only:
  "typeof options = ''function'' \<Longrightarrow> typeof cb \<noteq> ''function'' \<Longrightarrow>
   resolve defaults options cb = Inr (defaults, options)"
  by (cases options) (simp_all add: resolve_def)

lemma resolve_options_and_callback:
  "typeof options \<noteq> ''function'' \<Longrightarrow> typeof cb = ''function'' \<Longrightarrow>
   resolve defaults options cb = Inr (spread defaults options, cb)"
  by (cases cb) (simp_all add: resolve_def)

lemma resolve_nothing:
  "\<not> truthy options \<Longrightarrow> typeof cb \<noteq> ''function'' \<Longrightarrow>
   resolve defaults options cb =
     Inl \<lparr>name = ''Error'', message = ''Callback function not defined'', code = None, syscall = None\<rparr>"
  by (cases options) (simp_all add: resolve_def)

lemma settle_once:
  "user f (case promise of Inl e \<Rightarrow> Failure e | Inr r \<Rightarrow> Result r) = None \<Longrightarrow>
   settle user (JFun f) promise =
     \<lparr>invocations = [(f, case promise of Inl e \<Rightarrow> Failure e | Inr r \<Rightarrow> Result r)], unhandled = None\<rparr>"
  by (cases promise) (simp_all add: settle_def invoke_def)

text \<open>
  On every platform, whatever it does with the link: a function given to \<open>fs.symlink\<close> in
  the position before the callback is not called.
\<close>

lemma fs_symlink_function_as_type:
  "map_sum (\<lambda>e. e) fst (fs_symlink D user target path (JFun f) JUndefined w) =
     Inr \<lparr>invocations = [], unhandled = Some (TypeError ''resolved.cb is not a function'')\<rparr>"
  by (simp add: fs_symlink_def resolve_def spread_def settle_write_def settle_def invoke_def
      split: sum.splits)

text \<open>
  C2. Three calls of the callback form. \<open>fs.symlink(target, path, cb)\<close>: the callback sits
  in the position of \<open>type\<close>, is wrapped into \<open>{ type }\<close>, so \<open>resolve\<close> takes that object for
  the callback and the function for the type; the platform rejects that type, no link
  is made, and the callback is never called: calling the object in its place throws,
  which ends as an unhandled rejection. \<open>fs.readFile(path,
  { encoding: "utf8" })\<close> without a callback: nothing is thrown synchronously; the options
  object is taken for the callback and the error of calling it ends as an unhandled
  rejection. \<open>fs.unlink(path, cb)\<close> with a callback that throws when it is told of the
  success: the callback is called a second time, with its own exception as the error.
\<close>

theorem callback_form_misses_callback:
  "fs_symlink mem (\<lambda>f args. None) ''target'' ''link'' (JFun 1) JUndefined empty_world =
     Inr (\<lparr>invocations = [], unhandled = Some (TypeError ''resolved.cb is not a function'')\<rparr>,
          empty_world)
   \<and> fs_readFile mem (\<lambda>f args. None) ''missing'' (JObj [(''encoding'', JStr ''utf8'')]) JUndefined
        empty_world =
     Inr \<lparr>invocations = [], unhandled = Some (TypeError ''resolved.cb is not a function'')\<rparr>
   \<and> fs_unlink mem (\<lambda>f args. case args of Result r \<Rightarrow> Some (TypeError ''thrown by the callback'')
                                           | Failure e \<Rightarrow> None)
        ''f'' (JFun 1) no_birthtime =
     Inr (\<lparr>invocations = [(1, Result ()), (1, Failure (TypeError ''thrown by the callback''))],
           unhandled = None\<rparr>,
          no_birthtime\<lparr>nodes := (nodes no_birthtime)(''f'' := None)\<rparr>)"
  by (simp add: fs_symlink_def fs_readFile_def fs_unlink_def resolve_def spread_def
      settle_write_def settle_def invoke_def symlink_def readFile_def unlink_def mem_def
      mem_symlink_def valid_symlink_type_def mem_readFile_def mem_remove_def walk_here
      matches_NotFound no_birthtime_def empty_world_def)

subsection \<open>The UTF-8 codec\<close>

text \<open>
  Decoding inverts encoding on scalar values: the bytes of a scalar value, in front of
  any rest, are read back as that scalar value. The proof writes the code point in
  base 64 and follows the decoder's steps.
\<close>

lemma mod_base: "q < m \<Longrightarrow> (k * m + q) mod m = (q::nat)" by simp

lemma digits2:
  fixes cp :: nat
  assumes "\<not> cp < 128" "cp < 2048"
  obtains a b where "cp div 64 = a" "cp mod 64 = b" "cp = 64 * a + b" "2 \<le> a" "a < 32" "b < 64"
proof -
  define a where "a = cp div 64"
  define b where "b = cp mod 64"
  have e: "cp = 64 * a + b" unfolding a_def b_def by simp
  have r: "b < 64" unfolding b_def by simp
  have a: "cp div 64 = a" unfolding a_def ..
  have b: "cp mod 64 = b" unfolding b_def ..
  from e r assms have "2 \<le> a" "a < 32" by linarith+
  with a b e r that [of a b] show thesis by blast
qed

lemma digits3:
  fixes cp :: nat
  assumes "\<not> cp < 2048" "cp < 65536" "\<not> (55296 \<le> cp \<and> cp \<le> 57343)"
  obtains a b c where "cp div 4096 = a" "cp div 64 mod 64 = b" "cp mod 64 = c"
    "cp = 4096 * a + 64 * b + c" "a < 16" "b < 64" "c < 64"
    "a = 0 \<longrightarrow> 32 \<le> b" "a = 13 \<longrightarrow> b < 32"
proof -
  define h where "h = cp div 64"
  define c where "c = cp mod 64"
  define a where "a = h div 64"
  define b where "b = h mod 64"
  have e1: "cp = 64 * h + c" unfolding h_def c_def by simp
  have e2: "h = 64 * a + b" unfolding a_def b_def by simp
  have r: "b < 64" "c < 64" unfolding b_def c_def by simp_all
  have e: "cp = 4096 * a + 64 * b + c" using e1 e2 by linarith
  have a: "cp div 4096 = a" unfolding a_def h_def by (simp add: div_mult2_eq)
  have b: "cp div 64 mod 64 = b" unfolding b_def h_def ..
  have c: "cp mod 64 = c" unfolding c_def ..
  from e r assms have "a < 16" "a = 0 \<longrightarrow> 32 \<le> b" "a = 13 \<longrightarrow> b < 32" by linarith+
  with a b c e r that [of a b c] show thesis by blast
qed

lemma digits4:
  fixes cp :: nat
  assumes "\<not> cp < 65536" "cp < 1114112"
  obtains a b c d where "cp div 262144 = a" "cp div 4096 mod 64 = b" "cp div 64 mod 64 = c"
    "cp mod 64 = d" "cp = 262144 * a + 4096 * b + 64 * c + d" "a \<le> 4" "b < 64" "c < 64" "d < 64"
    "a = 0 \<longrightarrow> 16 \<le> b" "a = 4 \<longrightarrow> b < 16"
proof -
  define h where "h = cp div 64"
  define d where "d = cp mod 64"
  define g where "g = h div 64"
  define c where "c = h mod 64"
  define a where "a = g div 64"
  define b where "b = g mod 64"
  have e1: "cp = 64 * h + d" unfolding h_def d_def by simp
  have e2: "h = 64 * g + c" unfolding g_def c_def by simp
  have e3: "g = 64 * a + b" unfolding a_def b_def by simp
  have r: "b < 64" "c < 64" "d < 64" unfolding b_def c_def d_def by simp_all
  have e: "cp = 262144 * a + 4096 * b + 64 * c + d" using e1 e2 e3 by linarith
  have g: "cp div 4096 = g" unfolding g_def h_def by (simp add: div_mult2_eq)
  have a: "cp div 262144 = a" unfolding a_def g [symmetric] by (simp add: div_mult2_eq)
  have b: "cp div 4096 mod 64 = b" unfolding b_def g ..
  have c: "cp div 64 mod 64 = c" unfolding c_def h_def ..
  have d: "cp mod 64 = d" unfolding d_def ..
  from e r assms have "a \<le> 4" "a = 0 \<longrightarrow> 16 \<le> b" "a = 4 \<longrightarrow> b < 16" by linarith+
  with a b c d e r that [of a b c d] show thesis by blast
qed


lemma byte_unat: "n < 256 \<Longrightarrow> unat (of_nat n :: byte) = n"
  by (simp add: unat_of_nat)

lemma dec_ascii:
  "unat b = n \<Longrightarrow> n \<le> 0x7F \<Longrightarrow>
   utf8_decoder 0 0 0 0x80 0xBF (b # bs) = n # utf8_decoder 0 0 0 0x80 0xBF bs"
  by simp

lemma dec_lead2:
  "unat b = n \<Longrightarrow> 0xC2 \<le> n \<Longrightarrow> n \<le> 0xDF \<Longrightarrow>
   utf8_decoder 0 0 0 0x80 0xBF (b # bs) = utf8_decoder (n mod 32) 0 1 0x80 0xBF bs"
  by simp

lemma dec_lead3:
  "unat b = n \<Longrightarrow> 0xE0 \<le> n \<Longrightarrow> n \<le> 0xEF \<Longrightarrow>
   utf8_decoder 0 0 0 0x80 0xBF (b # bs) =
     utf8_decoder (n mod 16) 0 2 (if n = 0xE0 then 0xA0 else 0x80) (if n = 0xED then 0x9F else 0xBF) bs"
  by simp

lemma dec_lead4:
  "unat b = n \<Longrightarrow> 0xF0 \<le> n \<Longrightarrow> n \<le> 0xF4 \<Longrightarrow>
   utf8_decoder 0 0 0 0x80 0xBF (b # bs) =
     utf8_decoder (n mod 8) 0 3 (if n = 0xF0 then 0x90 else 0x80) (if n = 0xF4 then 0x8F else 0xBF) bs"
  by simp

lemma dec_cont_more:
  "unat b = n \<Longrightarrow> needed \<noteq> 0 \<Longrightarrow> lo \<le> n \<Longrightarrow> n \<le> hi \<Longrightarrow> seen' = seen + 1 \<Longrightarrow>
   seen' \<noteq> needed \<Longrightarrow>
   utf8_decoder cp seen needed lo hi (b # bs) =
     utf8_decoder (cp * 64 + n mod 64) seen' needed 0x80 0xBF bs"
  by simp

lemma dec_cont_last:
  "unat b = n \<Longrightarrow> needed \<noteq> 0 \<Longrightarrow> lo \<le> n \<Longrightarrow> n \<le> hi \<Longrightarrow> seen + 1 = needed \<Longrightarrow>
   utf8_decoder cp seen needed lo hi (b # bs) =
     (cp * 64 + n mod 64) # utf8_decoder 0 0 0 0x80 0xBF bs"
  by auto



lemma decoder_1:
  assumes "cp < 0x80"
  shows "utf8_decoder 0 0 0 0x80 0xBF (utf8_bytes cp @ rest) = cp # utf8_decoder 0 0 0 0x80 0xBF rest"
proof -
  define B1 :: byte where "B1 = of_nat cp"
  have bytes: "utf8_bytes cp = [B1]"
    by (simp only: utf8_bytes_def assms if_True B1_def)
  have u: "unat B1 = cp"
    unfolding B1_def using assms by (intro byte_unat) linarith
  show ?thesis
    unfolding bytes append.simps
    by (rule dec_ascii [OF u]) (use assms in linarith)
qed

lemma decoder_2:
  assumes "\<not> cp < 0x80" and "cp < 0x800"
  shows "utf8_decoder 0 0 0 0x80 0xBF (utf8_bytes cp @ rest) = cp # utf8_decoder 0 0 0 0x80 0xBF rest"
proof -
  from assms obtain a b where d: "cp div 64 = a" "cp mod 64 = b"
    and e: "cp = 64 * a + b" and r: "2 \<le> a" "a < 32" "b < 64"
    by (rule digits2)
  define B1 :: byte where "B1 = of_nat (0xC0 + a)"
  define B2 :: byte where "B2 = of_nat (0x80 + b)"
  have bytes: "utf8_bytes cp = [B1, B2]"
    by (simp only: utf8_bytes_def assms if_True if_False d B1_def B2_def)
  have u1: "unat B1 = 0xC0 + a"
    unfolding B1_def using r by (intro byte_unat) linarith
  have u2: "unat B2 = 0x80 + b"
    unfolding B2_def using r by (intro byte_unat) linarith
  have m1: "(0xC0 + a) mod 32 = a" using mod_base [of a 32 6] r by simp
  have m2: "(0x80 + b) mod 64 = b" using mod_base [of b 64 2] r by simp
  have s1: "utf8_decoder 0 0 0 0x80 0xBF (B1 # B2 # rest) = utf8_decoder a 0 1 0x80 0xBF (B2 # rest)"
    using dec_lead2 [OF u1, of "B2 # rest"] r unfolding m1 by linarith
  have s2: "utf8_decoder a 0 1 0x80 0xBF (B2 # rest) = (a * 64 + b) # utf8_decoder 0 0 0 0x80 0xBF rest"
    using dec_cont_last [OF u2, of 1 "0x80" "0xBF" 0 a rest] r unfolding m2 by (simp del: utf8_decoder.simps)
  have v: "a * 64 + b = cp" using e by simp
  show ?thesis
    unfolding bytes append.simps s1 s2 v ..
qed


lemma decoder_3:
  assumes "\<not> cp < 0x800" and "cp < 0x10000" and "\<not> (0xD800 \<le> cp \<and> cp \<le> 0xDFFF)"
  shows "utf8_decoder 0 0 0 0x80 0xBF (utf8_bytes cp @ rest) = cp # utf8_decoder 0 0 0 0x80 0xBF rest"
proof -
  from assms obtain a b c where d: "cp div 4096 = a" "cp div 64 mod 64 = b" "cp mod 64 = c"
    and e: "cp = 4096 * a + 64 * b + c" and r: "a < 16" "b < 64" "c < 64"
    and lo: "a = 0 \<longrightarrow> 32 \<le> b" and hi: "a = 13 \<longrightarrow> b < 32"
    by (rule digits3)
  define B1 :: byte where "B1 = of_nat (0xE0 + a)"
  define B2 :: byte where "B2 = of_nat (0x80 + b)"
  define B3 :: byte where "B3 = of_nat (0x80 + c)"
  have n1: "\<not> cp < 0x80" using assms(1) by linarith
  have bytes: "utf8_bytes cp = [B1, B2, B3]"
    by (simp only: utf8_bytes_def assms n1 if_True if_False d B1_def B2_def B3_def)
  have u1: "unat B1 = 0xE0 + a"
    unfolding B1_def using r by (intro byte_unat) linarith
  have u2: "unat B2 = 0x80 + b"
    unfolding B2_def using r by (intro byte_unat) linarith
  have u3: "unat B3 = 0x80 + c"
    unfolding B3_def using r by (intro byte_unat) linarith
  have m1: "(0xE0 + a) mod 16 = a" using mod_base [of a 16 14] r by simp
  have m2: "(0x80 + b) mod 64 = b" using mod_base [of b 64 2] r by simp
  have m3: "(0x80 + c) mod 64 = c" using mod_base [of c 64 2] r by simp
  define l where "l = (if 0xE0 + a = 0xE0 then 0xA0 else 0x80 :: nat)"
  define h where "h = (if 0xE0 + a = 0xED then 0x9F else 0xBF :: nat)"
  have l: "l \<le> 0x80 + b" using lo by (simp add: l_def)
  have h: "0x80 + b \<le> h" using hi r by (auto simp: h_def)
  have s1: "utf8_decoder 0 0 0 0x80 0xBF (B1 # B2 # B3 # rest) = utf8_decoder a 0 2 l h (B2 # B3 # rest)"
    using dec_lead3 [OF u1, of "B2 # B3 # rest"] r unfolding m1 l_def h_def by linarith
  have s2: "utf8_decoder a 0 2 l h (B2 # B3 # rest) = utf8_decoder (a * 64 + b) 1 2 0x80 0xBF (B3 # rest)"
    using dec_cont_more [OF u2 _ l h, of 2 1 0 a "B3 # rest"] unfolding m2 by (simp del: utf8_decoder.simps)
  have s3: "utf8_decoder (a * 64 + b) 1 2 0x80 0xBF (B3 # rest)
      = ((a * 64 + b) * 64 + c) # utf8_decoder 0 0 0 0x80 0xBF rest"
    using dec_cont_last [OF u3, of 2 "0x80" "0xBF" 1 "a * 64 + b" rest] r unfolding m3 by (simp del: utf8_decoder.simps)
  have v: "(a * 64 + b) * 64 + c = cp" using e by simp
  show ?thesis
    unfolding bytes append.simps s1 s2 s3 v ..
qed

lemma decoder_4:
  assumes "\<not> cp < 0x10000" and "cp < 0x110000"
  shows "utf8_decoder 0 0 0 0x80 0xBF (utf8_bytes cp @ rest) = cp # utf8_decoder 0 0 0 0x80 0xBF rest"
proof -
  from assms obtain a b c d where dg: "cp div 262144 = a" "cp div 4096 mod 64 = b"
      "cp div 64 mod 64 = c" "cp mod 64 = d"
    and e: "cp = 262144 * a + 4096 * b + 64 * c + d"
    and r: "a \<le> 4" "b < 64" "c < 64" "d < 64"
    and lo: "a = 0 \<longrightarrow> 16 \<le> b" and hi: "a = 4 \<longrightarrow> b < 16"
    by (rule digits4)
  define B1 :: byte where "B1 = of_nat (0xF0 + a)"
  define B2 :: byte where "B2 = of_nat (0x80 + b)"
  define B3 :: byte where "B3 = of_nat (0x80 + c)"
  define B4 :: byte where "B4 = of_nat (0x80 + d)"
  have n: "\<not> cp < 0x80" "\<not> cp < 0x800" using assms(1) by linarith+
  have bytes: "utf8_bytes cp = [B1, B2, B3, B4]"
    by (simp only: utf8_bytes_def assms n if_True if_False dg B1_def B2_def B3_def B4_def)
  have u1: "unat B1 = 0xF0 + a"
    unfolding B1_def using r by (intro byte_unat) linarith
  have u2: "unat B2 = 0x80 + b"
    unfolding B2_def using r by (intro byte_unat) linarith
  have u3: "unat B3 = 0x80 + c"
    unfolding B3_def using r by (intro byte_unat) linarith
  have u4: "unat B4 = 0x80 + d"
    unfolding B4_def using r by (intro byte_unat) linarith
  have m1: "(0xF0 + a) mod 8 = a" using mod_base [of a 8 30] r by simp
  have m2: "(0x80 + b) mod 64 = b" using mod_base [of b 64 2] r by simp
  have m3: "(0x80 + c) mod 64 = c" using mod_base [of c 64 2] r by simp
  have m4: "(0x80 + d) mod 64 = d" using mod_base [of d 64 2] r by simp
  define l where "l = (if 0xF0 + a = 0xF0 then 0x90 else 0x80 :: nat)"
  define h where "h = (if 0xF0 + a = 0xF4 then 0x8F else 0xBF :: nat)"
  have l: "l \<le> 0x80 + b" using lo by (simp add: l_def)
  have h: "0x80 + b \<le> h" using hi r by (auto simp: h_def)
  have s1: "utf8_decoder 0 0 0 0x80 0xBF (B1 # B2 # B3 # B4 # rest)
      = utf8_decoder a 0 3 l h (B2 # B3 # B4 # rest)"
    using dec_lead4 [OF u1, of "B2 # B3 # B4 # rest"] r unfolding m1 l_def h_def by linarith
  have s2: "utf8_decoder a 0 3 l h (B2 # B3 # B4 # rest)
      = utf8_decoder (a * 64 + b) 1 3 0x80 0xBF (B3 # B4 # rest)"
    using dec_cont_more [OF u2 _ l h, of 3 1 0 a "B3 # B4 # rest"] unfolding m2 by (simp del: utf8_decoder.simps)
  have s3: "utf8_decoder (a * 64 + b) 1 3 0x80 0xBF (B3 # B4 # rest)
      = utf8_decoder ((a * 64 + b) * 64 + c) 2 3 0x80 0xBF (B4 # rest)"
    using dec_cont_more [OF u3, of 3 "0x80" "0xBF" 2 1 "a * 64 + b" "B4 # rest"] r unfolding m3
    by (simp del: utf8_decoder.simps)
  have s4: "utf8_decoder ((a * 64 + b) * 64 + c) 2 3 0x80 0xBF (B4 # rest)
      = (((a * 64 + b) * 64 + c) * 64 + d) # utf8_decoder 0 0 0 0x80 0xBF rest"
    using dec_cont_last [OF u4, of 3 "0x80" "0xBF" 2 "(a * 64 + b) * 64 + c" rest] r unfolding m4
    by (simp del: utf8_decoder.simps)
  have v: "((a * 64 + b) * 64 + c) * 64 + d = cp" using e by simp
  show ?thesis
    unfolding bytes append.simps s1 s2 s3 s4 v ..
qed

lemma decoder_scalar:
  assumes "is_scalar cp"
  shows "utf8_decoder 0 0 0 0x80 0xBF (utf8_bytes cp @ rest) = cp # utf8_decoder 0 0 0 0x80 0xBF rest"
proof -
  consider "cp < 0x80" | "\<not> cp < 0x80" "cp < 0x800" | "\<not> cp < 0x800" "cp < 0x10000"
    | "\<not> cp < 0x10000"
    by linarith
  then show ?thesis
  proof cases
    case 1 then show ?thesis by (rule decoder_1)
  next
    case 2 then show ?thesis by (rule decoder_2)
  next
    case 3 with assms show ?thesis by (intro decoder_3) (simp_all add: is_scalar_def)
  next
    case 4 with assms show ?thesis by (intro decoder_4) (simp_all add: is_scalar_def)
  qed
qed

lemma decoder_scalars:
  "\<forall>cp \<in> set cps. is_scalar cp \<Longrightarrow>
   utf8_decoder 0 0 0 0x80 0xBF (concat (map utf8_bytes cps)) = cps"
proof (induction cps)
  case Nil
  then show ?case by simp
next
  case (Cons cp cps)
  then have "is_scalar cp" and rest: "utf8_decoder 0 0 0 0x80 0xBF (concat (map utf8_bytes cps)) = cps"
    by simp_all
  from decoder_scalar [OF this(1), of "concat (map utf8_bytes cps)"] rest
  show ?case by simp
qed


lemma unit_bound: "unat (u :: 16 word) < 65536"
  using unsigned_less [of u, where 'a = nat] by simp

lemma pair_scalar:
  fixes hu lv :: nat
  assumes "0xD800 \<le> hu" "hu \<le> 0xDBFF" "0xDC00 \<le> lv" "lv \<le> 0xDFFF"
  shows "is_scalar (0x10000 + (hu - 0xD800) * 0x400 + (lv - 0xDC00))"
  unfolding is_scalar_def using assms by linarith

lemma scalar_values_scalar: "\<forall>cp \<in> set (scalar_values str). is_scalar cp"
proof (induction str rule: scalar_values.induct)
  case 1
  show ?case by simp
next
  case (2 u)
  show ?case using unit_bound [of u] by (simp add: is_surrogate_def is_scalar_def)
next
  case (3 u v us)
  show ?case
  proof (cases "surrogate_pair u v")
    case True
    with 3 pair_scalar [of "unat u" "unat v"] show ?thesis by (simp add: surrogate_pair_def)
  next
    case False
    with 3 unit_bound [of u] show ?thesis by (simp add: is_surrogate_def is_scalar_def)
  qed
qed

lemma decode_encode_code_points:
  "utf8_decoder 0 0 0 0x80 0xBF (utf8_encode str) = scalar_values str"
  unfolding utf8_encode_def by (rule decoder_scalars) (rule scalar_values_scalar)

lemma unit_of_unat: "of_nat (unat u) = (u :: 16 word)"
  by simp

lemma pair_units:
  fixes u v :: "16 word"
  assumes "0xD800 \<le> unat u" "unat u \<le> 0xDBFF" "0xDC00 \<le> unat v" "unat v \<le> 0xDFFF"
  shows "utf16_units (0x10000 + (unat u - 0xD800) * 0x400 + (unat v - 0xDC00)) = [u, v]"
proof -
  define x where "x = unat u - 0xD800"
  define y where "y = unat v - 0xDC00"
  have x: "unat u = 0xD800 + x" and y: "unat v = 0xDC00 + y" and r: "y < 0x400"
    using assms by (simp_all add: x_def y_def)
  have dv: "(x * 0x400 + y) div 0x400 = x" using r by simp
  have md: "(x * 0x400 + y) mod 0x400 = y" using r by simp
  have big: "\<not> 0x10000 + x * 0x400 + y < 0x10000" by simp
  have sub: "0x10000 + x * 0x400 + y - 0x10000 = x * 0x400 + y" by simp
  have "utf16_units (0x10000 + x * 0x400 + y) = [of_nat (0xD800 + x), of_nat (0xDC00 + y)]"
    by (simp only: utf16_units_def big if_False sub dv md)
  also have "\<dots> = [of_nat (unat u), of_nat (unat v)]"
    by (simp only: x y)
  also have "\<dots> = [u, v]"
    by (simp only: unit_of_unat)
  finally show ?thesis
    by (simp only: x_def y_def)
qed

lemma single_unit: "utf16_units (unat (u :: 16 word)) = [u]"
  using unit_bound [of u] by (simp only: utf16_units_def if_True unit_of_unat)

lemma well_formed_units:
  "well_formed str \<Longrightarrow> concat (map utf16_units (scalar_values str)) = str"
proof (induction str rule: scalar_values.induct)
  case 1
  show ?case by simp
next
  case (2 u)
  then show ?case by (simp add: single_unit)
next
  case (3 u v us)
  show ?case
  proof (cases "surrogate_pair u v")
    case True
    with 3 pair_units [of u v] show ?thesis by (simp add: surrogate_pair_def)
  next
    case False
    with 3 show ?thesis by (simp add: single_unit)
  qed
qed

text \<open>
  The decoder emits scalar values only, whatever the bytes: in each of its states the
  code point built so far is within the bounds that make the finished one a scalar
  value. So a decoded text is well formed, and encoding it and decoding the bytes gives
  the text back.
\<close>

lemma cont_mod: "128 \<le> n \<Longrightarrow> n \<le> 191 \<Longrightarrow> n mod 64 = n - (128::nat)"
  using mod_base [of "n - 128" 64 2] by simp

lemma lead2_mod: "194 \<le> n \<Longrightarrow> n \<le> 223 \<Longrightarrow> n mod 32 = n - (192::nat)"
  using mod_base [of "n - 192" 32 6] by simp

lemma lead3_mod: "224 \<le> n \<Longrightarrow> n \<le> 239 \<Longrightarrow> n mod 16 = n - (224::nat)"
  using mod_base [of "n - 224" 16 14] by simp

lemma lead4_mod: "240 \<le> n \<Longrightarrow> n \<le> 244 \<Longrightarrow> n mod 8 = n - (240::nat)"
  using mod_base [of "n - 240" 8 30] by simp

lemma decoder_emits_scalars:
  "needed = 0
   \<or> (needed = 1 \<and> seen = 0 \<and> cp < 32 \<and> 128 \<le> lo \<and> hi \<le> 191)
   \<or> (needed = 2 \<and> seen = 0 \<and> cp < 16 \<and> 128 \<le> lo \<and> hi \<le> 191 \<and> (cp = 13 \<longrightarrow> hi \<le> 159))
   \<or> (needed = 2 \<and> seen = 1 \<and> cp < 1024 \<and> \<not> (864 \<le> cp \<and> cp \<le> 895) \<and> 128 \<le> lo \<and> hi \<le> 191)
   \<or> (needed = 3 \<and> seen = 0 \<and> cp \<le> 4 \<and> 128 \<le> lo \<and> hi \<le> 191
        \<and> (cp = 0 \<longrightarrow> 144 \<le> lo) \<and> (cp = 4 \<longrightarrow> hi \<le> 143))
   \<or> (needed = 3 \<and> seen = 1 \<and> 16 \<le> cp \<and> cp \<le> 271 \<and> 128 \<le> lo \<and> hi \<le> 191)
   \<or> (needed = 3 \<and> seen = 2 \<and> 1024 \<le> cp \<and> cp \<le> 17407 \<and> 128 \<le> lo \<and> hi \<le> 191)
   \<Longrightarrow> \<forall>x \<in> set (utf8_decoder cp seen needed lo hi bytes). is_scalar x"
proof (induction cp seen needed lo hi bytes rule: utf8_decoder.induct)
  case (1 cp seen needed lo hi)
  then show ?case by (simp add: is_scalar_def)
next
  case (2 cp seen needed lo hi b bs)
  define n where "n = unat b"
  note IH = "2.IH" [OF n_def]
  note inv = "2.prems"
  have repl: "is_scalar 65533" by (simp add: is_scalar_def)
  show ?case
  proof (cases "needed = 0")
    case True
    consider "n \<le> 127" | "\<not> n \<le> 127" "194 \<le> n \<and> n \<le> 223"
      | "\<not> n \<le> 127" "\<not> (194 \<le> n \<and> n \<le> 223)" "224 \<le> n \<and> n \<le> 239"
      | "\<not> n \<le> 127" "\<not> (194 \<le> n \<and> n \<le> 223)" "\<not> (224 \<le> n \<and> n \<le> 239)" "240 \<le> n \<and> n \<le> 244"
      | "\<not> n \<le> 127" "\<not> (194 \<le> n \<and> n \<le> 223)" "\<not> (224 \<le> n \<and> n \<le> 239)" "\<not> (240 \<le> n \<and> n \<le> 244)"
      by linarith
    then show ?thesis
    proof cases
      case 1
      have "is_scalar n" using 1 by (simp add: is_scalar_def)
      moreover have "\<forall>x \<in> set (utf8_decoder 0 0 0 128 191 bs). is_scalar x"
        using IH(1) [OF True 1] by simp
      moreover have "utf8_decoder cp seen needed lo hi (b # bs) = n # utf8_decoder 0 0 0 128 191 bs"
        using True 1 by (subst utf8_decoder.simps(2)) (simp add: n_def Let_def del: utf8_decoder.simps)
      ultimately show ?thesis by (simp del: utf8_decoder.simps)
    next
      case 2
      have m: "n mod 32 < 32" by simp
      have "\<forall>x \<in> set (utf8_decoder (n mod 32) 0 1 128 191 bs). is_scalar x"
        using IH(2) [OF True 2] m by (simp del: utf8_decoder.simps)
      moreover have "utf8_decoder cp seen needed lo hi (b # bs) = utf8_decoder (n mod 32) 0 1 128 191 bs"
        using True 2 by (subst utf8_decoder.simps(2)) (simp add: n_def Let_def del: utf8_decoder.simps)
      ultimately show ?thesis by (simp del: utf8_decoder.simps)
    next
      case 3
      define l where "l = (if n = 224 then 160 else 128 :: nat)"
      define h where "h = (if n = 237 then 159 else 191 :: nat)"
      have m: "n mod 16 = n - 224" using 3 by (intro lead3_mod) simp_all
      have ok: "n mod 16 < 16 \<and> 128 \<le> l \<and> h \<le> 191 \<and> (n mod 16 = 13 \<longrightarrow> h \<le> 159)"
        unfolding m l_def h_def using 3 by auto
      have "\<forall>x \<in> set (utf8_decoder (n mod 16) 0 2 l h bs). is_scalar x"
        using IH(3) [OF True 3] ok unfolding l_def h_def by (simp del: utf8_decoder.simps)
      moreover have "utf8_decoder cp seen needed lo hi (b # bs) = utf8_decoder (n mod 16) 0 2 l h bs"
        using True 3 unfolding l_def h_def
        by (subst utf8_decoder.simps(2)) (simp add: n_def Let_def del: utf8_decoder.simps)
      ultimately show ?thesis by (simp del: utf8_decoder.simps)
    next
      case 4
      define l where "l = (if n = 240 then 144 else 128 :: nat)"
      define h where "h = (if n = 244 then 143 else 191 :: nat)"
      have m: "n mod 8 = n - 240" using 4 by (intro lead4_mod) simp_all
      have ok: "n mod 8 \<le> 4 \<and> 128 \<le> l \<and> h \<le> 191 \<and> (n mod 8 = 0 \<longrightarrow> 144 \<le> l)
          \<and> (n mod 8 = 4 \<longrightarrow> h \<le> 143)"
        unfolding m l_def h_def using 4 by auto
      have "\<forall>x \<in> set (utf8_decoder (n mod 8) 0 3 l h bs). is_scalar x"
        using IH(4) [OF True 4] ok unfolding l_def h_def by (simp del: utf8_decoder.simps)
      moreover have "utf8_decoder cp seen needed lo hi (b # bs) = utf8_decoder (n mod 8) 0 3 l h bs"
        using True 4 unfolding l_def h_def
        by (subst utf8_decoder.simps(2)) (simp add: n_def Let_def del: utf8_decoder.simps)
      ultimately show ?thesis by (simp del: utf8_decoder.simps)
    next
      case 5
      have "\<forall>x \<in> set (utf8_decoder 0 0 0 128 191 bs). is_scalar x"
        using IH(5) [OF True 5] by simp
      moreover have "utf8_decoder cp seen needed lo hi (b # bs) = 65533 # utf8_decoder 0 0 0 128 191 bs"
        using True 5
        by (subst utf8_decoder.simps(2)) (auto simp add: n_def Let_def simp del: utf8_decoder.simps)
      ultimately show ?thesis using repl by (simp del: utf8_decoder.simps)
    qed
  next
    case False
    show ?thesis
    proof (cases "n < lo \<or> hi < n")
      case True
      have "\<forall>x \<in> set (utf8_decoder 0 0 0 128 191 (b # bs)). is_scalar x"
        using IH(6) [OF False True] by simp
      moreover have "utf8_decoder cp seen needed lo hi (b # bs)
          = 65533 # utf8_decoder 0 0 0 128 191 (b # bs)"
        using False True
        by (subst utf8_decoder.simps(2)) (simp add: n_def Let_def del: utf8_decoder.simps)
      ultimately show ?thesis using repl by (simp del: utf8_decoder.simps)
    next
      case inside: False
      from inv False have bounds: "128 \<le> lo" "hi \<le> 191" by auto
      define m where "m = n mod 64"
      have nlo: "lo \<le> n" "n \<le> hi" using inside by simp_all
      have "n mod 64 = n - 128" using nlo bounds by (intro cont_mod) linarith+
      then have m: "m = n - 128" "m < 64"
        unfolding m_def using nlo bounds by linarith+
      show ?thesis
      proof (cases "seen + 1 \<noteq> needed")
        case True
        from inv False True consider
            (a) "needed = 2" "seen = 0" "cp < 16" "cp = 13 \<longrightarrow> hi \<le> 159"
          | (b) "needed = 3" "seen = 0" "cp \<le> 4" "cp = 0 \<longrightarrow> 144 \<le> lo" "cp = 4 \<longrightarrow> hi \<le> 143"
          | (c) "needed = 3" "seen = 1" "16 \<le> cp" "cp \<le> 271"
          by auto
        then have ok: "(needed = 2 \<and> seen + 1 = 1 \<and> cp * 64 + m < 1024
              \<and> \<not> (864 \<le> cp * 64 + m \<and> cp * 64 + m \<le> 895))
            \<or> (needed = 3 \<and> seen + 1 = 1 \<and> 16 \<le> cp * 64 + m \<and> cp * 64 + m \<le> 271)
            \<or> (needed = 3 \<and> seen + 1 = 2 \<and> 1024 \<le> cp * 64 + m \<and> cp * 64 + m \<le> 17407)"
        proof cases
          case a
          have 1: "cp * 64 + m < 1024" using a m by linarith
          have 2: "\<not> (864 \<le> cp * 64 + m \<and> cp * 64 + m \<le> 895)"
          proof (cases "cp = 13")
            case True
            with a nlo m have "m \<le> 31" by linarith
            with True show ?thesis by linarith
          next
            case False
            then consider "cp \<le> 12" | "14 \<le> cp" by linarith
            then show ?thesis using m by cases linarith+
          qed
          from a 1 2 show ?thesis by simp
        next
          case b
          have 1: "16 \<le> cp * 64 + m"
          proof (cases "cp = 0")
            case True
            with b nlo m show ?thesis by linarith
          next
            case False
            then show ?thesis by linarith
          qed
          have 2: "cp * 64 + m \<le> 271"
          proof (cases "cp = 4")
            case True
            with b nlo m show ?thesis by linarith
          next
            case False
            with b m show ?thesis by linarith
          qed
          from b 1 2 show ?thesis by simp
        next
          case c
          have "1024 \<le> cp * 64 + m" "cp * 64 + m \<le> 17407" using c m by linarith+
          with c show ?thesis by simp
        qed
        have "\<forall>x \<in> set (utf8_decoder (cp * 64 + m) (seen + 1) needed 128 191 bs). is_scalar x"
          using IH(7) [OF False inside True] ok unfolding m_def
          by (auto simp del: utf8_decoder.simps)
        moreover have "utf8_decoder cp seen needed lo hi (b # bs)
            = utf8_decoder (cp * 64 + m) (seen + 1) needed 128 191 bs"
          using False inside True unfolding m_def
          by (subst utf8_decoder.simps(2)) (simp add: n_def Let_def del: utf8_decoder.simps)
        ultimately show ?thesis by (simp del: utf8_decoder.simps)
      next
        case last: False
        from inv False last consider
            (a) "needed = 1" "seen = 0" "cp < 32"
          | (b) "needed = 2" "seen = 1" "cp < 1024" "\<not> (864 \<le> cp \<and> cp \<le> 895)"
          | (c) "needed = 3" "seen = 2" "1024 \<le> cp" "cp \<le> 17407"
          by auto
        then have sc: "is_scalar (cp * 64 + m)"
          unfolding is_scalar_def using m by cases linarith+
        have "\<forall>x \<in> set (utf8_decoder 0 0 0 128 191 bs). is_scalar x"
          using IH(8) [OF False inside last] by simp
        moreover have "utf8_decoder cp seen needed lo hi (b # bs)
            = (cp * 64 + m) # utf8_decoder 0 0 0 128 191 bs"
          using False inside last unfolding m_def
          by (subst utf8_decoder.simps(2)) (simp add: n_def Let_def del: utf8_decoder.simps)
        ultimately show ?thesis using sc by (simp del: utf8_decoder.simps)
      qed
    qed
  qed
qed


lemma decoded_scalars: "\<forall>x \<in> set (utf8_decoder 0 0 0 0x80 0xBF bytes). is_scalar x"
  using decoder_emits_scalars [of 0 0 0 "0x80" "0xBF" bytes] by simp

lemma unit_unat: "n < 65536 \<Longrightarrow> unat (of_nat n :: 16 word) = n"
  by (simp add: unat_of_nat)

lemma scalar_values_units_cons:
  assumes "is_scalar cp"
  shows "scalar_values (utf16_units cp @ rest) = cp # scalar_values rest"
proof (cases "cp < 0x10000")
  case True
  define u :: "16 word" where "u = of_nat cp"
  have u: "unat u = cp" unfolding u_def using True by (intro unit_unat) simp
  have units: "utf16_units cp = [u]" using True by (simp add: utf16_units_def u_def)
  have ns: "\<not> is_surrogate u" using assms u by (simp add: is_surrogate_def is_scalar_def)
  have np: "\<not> surrogate_pair u v" for v
    using assms u unfolding surrogate_pair_def is_scalar_def by linarith
  show ?thesis
    unfolding units using ns np u by (cases rest) simp_all
next
  case False
  define x where "x = cp - 0x10000"
  define q where "q = x div 0x400"
  define r where "r = x mod 0x400"
  have x: "x = q * 0x400 + r" and r: "r < 0x400" unfolding q_def r_def by simp_all
  have cp: "cp = 0x10000 + x" unfolding x_def using False by simp
  have xb: "x < 0x100000" using assms cp by (simp add: is_scalar_def)
  have q: "q < 0x400" using x xb by linarith
  define h :: "16 word" where "h = of_nat (0xD800 + q)"
  define l :: "16 word" where "l = of_nat (0xDC00 + r)"
  have h: "unat h = 0xD800 + q" unfolding h_def using q by (intro unit_unat) linarith
  have l: "unat l = 0xDC00 + r" unfolding l_def using r by (intro unit_unat) linarith
  have units: "utf16_units cp = [h, l]"
    using False by (simp only: utf16_units_def if_False h_def l_def q_def r_def x_def)
  have pair: "surrogate_pair h l" unfolding surrogate_pair_def h l using q r by linarith
  have v: "0x10000 + (unat h - 0xD800) * 0x400 + (unat l - 0xDC00) = cp"
    unfolding h l cp x by simp
  show ?thesis
    unfolding units using pair v by simp
qed

lemma scalar_values_units:
  "\<forall>cp \<in> set cps. is_scalar cp \<Longrightarrow> scalar_values (concat (map utf16_units cps)) = cps"
  by (induction cps) (simp_all add: scalar_values_units_cons)

lemma utf8_lossy_encode:
  "utf8_lossy (utf8_encode str) = concat (map utf16_units (scalar_values str))"
  by (simp add: utf8_lossy_def decode_encode_code_points)

lemma utf8_lossy_encode_decode: "utf8_lossy (utf8_encode (utf8_decode bytes)) = utf8_decode bytes"
proof -
  define cps where "cps = utf8_decoder 0 0 0 0x80 0xBF bytes"
  define cps' where "cps' = (if take 1 cps = [0xFEFF] then drop 1 cps else cps)"
  have "set cps' \<subseteq> set cps" unfolding cps'_def by (auto dest: in_set_dropD)
  with decoded_scalars [of bytes] have sc: "\<forall>cp \<in> set cps'. is_scalar cp"
    unfolding cps_def by blast
  have d: "utf8_decode bytes = concat (map utf16_units cps')"
    by (simp add: utf8_decode_def Let_def cps'_def cps_def)
  show ?thesis
    unfolding utf8_lossy_encode d scalar_values_units [OF sc] ..
qed

subsection \<open>Writing and reading back\<close>

lemma walk_ends_off_link: "walk n ns p = Inr q \<Longrightarrow> ns q \<noteq> Some (Link to)"
  by (induction n arbitrary: p) (auto split: option.splits node.splits)

lemma walk_after_write:
  "walk n ns p = Inr q \<Longrightarrow> walk n (ns(q := Some (File b))) p = Inr q"
proof (induction n arbitrary: p)
  case 0
  then show ?case by simp
next
  case (Suc n)
  show ?case
  proof (cases "p = q")
    case True
    then show ?thesis by simp
  next
    case False
    with Suc show ?thesis
      by (auto split: option.splits node.splits)
  qed
qed

lemma mem_read_after_write:
  assumes "mem_writeFile path bytes w = Inr w'"
  shows "mem_readFile path w' = Inr bytes"
proof -
  from assms obtain q where q: "walk 40 (nodes w) path = Inr q"
    and w': "w' = w\<lparr>nodes := (nodes w)(q := Some (File bytes))\<rparr>"
    by (auto simp: mem_writeFile_def split: sum.splits option.splits node.splits)
  from walk_after_write [OF q, of bytes] w' show ?thesis
    by (simp add: mem_readFile_def)
qed

text \<open>What \<open>writeFile\<close> hands to the platform, when it succeeds.\<close>

lemma writeFile_mem:
  assumes "writeFile mem path data options w = Inr w'"
  shows "mem_writeFile path
           (case data of
              Text str \<Rightarrow> utf8_encode str
            | Binary buf \<Rightarrow>
                if options = JUndefined \<or> get_prop options ''encoding'' = JStr ''utf8''
                then utf8_encode (utf8_decode buf) else buf) w = Inr w'"
  using assms
  by (auto simp: writeFile_def member_def mem_def Let_def split: sum.splits content.splits if_splits)

text \<open>
  C7, as the code has it. On the reference platform, whenever a write succeeds, the file
  and what reading the path back with the same options gives are these. With options
  whose encoding is not \<open>"utf8"\<close>: binary data is stored and read back as written; a
  string is stored as its UTF-8 bytes, which are what is read back. With the encoding
  \<open>"utf8"\<close>: a string is stored as its UTF-8 bytes and read back as text, with U+FFFD in
  the place of each lone surrogate, so as the string itself when it is well formed;
  binary data is stored as the UTF-8 encoding of the text it decodes to, and read back
  as that text. With no options at all the write is one under \<open>"utf8"\<close> and the read is
  binary: what is read back is the UTF-8 encoding of the string, or of the text the
  binary data decodes to.
\<close>

theorem write_then_read_mem:
  assumes "writeFile mem path data options w = Inr w'"
  shows "(options \<noteq> JUndefined \<and> get_prop options ''encoding'' \<noteq> JStr ''utf8'' \<longrightarrow>
            (\<forall>buf. data = Binary buf \<longrightarrow>
                mem_readFile path w' = Inr buf
                \<and> readFile mem path options w' = Inr (Binary buf))
          \<and> (\<forall>str. data = Text str \<longrightarrow>
                mem_readFile path w' = Inr (utf8_encode str)
                \<and> readFile mem path options w' = Inr (Binary (utf8_encode str))))
       \<and> (get_prop options ''encoding'' = JStr ''utf8'' \<longrightarrow>
            (\<forall>str. data = Text str \<longrightarrow>
                mem_readFile path w' = Inr (utf8_encode str)
                \<and> readFile mem path options w' =
                    Inr (Text (concat (map utf16_units (scalar_values str))))
                \<and> (well_formed str \<longrightarrow> readFile mem path options w' = Inr (Text str)))
          \<and> (\<forall>buf. data = Binary buf \<longrightarrow>
                mem_readFile path w' = Inr (utf8_encode (utf8_decode buf))
                \<and> readFile mem path options w' = Inr (Text (utf8_decode buf))))
       \<and> (options = JUndefined \<longrightarrow>
            (\<forall>str. data = Text str \<longrightarrow>
                mem_readFile path w' = Inr (utf8_encode str)
                \<and> readFile mem path options w' = Inr (Binary (utf8_encode str)))
          \<and> (\<forall>buf. data = Binary buf \<longrightarrow>
                mem_readFile path w' = Inr (utf8_encode (utf8_decode buf))
                \<and> readFile mem path options w' = Inr (Binary (utf8_encode (utf8_decode buf)))))"
proof -
  note stored = mem_read_after_write [OF writeFile_mem [OF assms]]
  have as_text: "readFile mem path options w' = Inr (Text (utf8_lossy bytes))"
    if "mem_readFile path w' = Inr bytes" "get_prop options ''encoding'' = JStr ''utf8''" for bytes
    using that by (simp add: readFile_def mem_def)
  have binary: "readFile mem path options w' = Inr (Binary bytes)"
    if "mem_readFile path w' = Inr bytes" "get_prop options ''encoding'' \<noteq> JStr ''utf8''" for bytes
    using that by (simp add: readFile_def mem_def)
  show ?thesis
  proof (intro conjI impI allI)
    fix buf assume "options \<noteq> JUndefined \<and> get_prop options ''encoding'' \<noteq> JStr ''utf8''"
      and "data = Binary buf"
    with stored show "mem_readFile path w' = Inr buf"
      and "readFile mem path options w' = Inr (Binary buf)"
      by (simp_all add: binary)
  next
    fix str assume "options \<noteq> JUndefined \<and> get_prop options ''encoding'' \<noteq> JStr ''utf8''"
      and "data = Text str"
    with stored show "mem_readFile path w' = Inr (utf8_encode str)"
      and "readFile mem path options w' = Inr (Binary (utf8_encode str))"
      by (simp_all add: binary)
  next
    fix str assume u: "get_prop options ''encoding'' = JStr ''utf8''" and d: "data = Text str"
    from stored d show s: "mem_readFile path w' = Inr (utf8_encode str)" by simp
    from as_text [OF s u]
    show r: "readFile mem path options w' = Inr (Text (concat (map utf16_units (scalar_values str))))"
      by (simp add: utf8_lossy_encode)
    assume "well_formed str"
    with r show "readFile mem path options w' = Inr (Text str)"
      by (simp add: well_formed_units)
  next
    fix buf assume u: "get_prop options ''encoding'' = JStr ''utf8''" and d: "data = Binary buf"
    from stored d u show s: "mem_readFile path w' = Inr (utf8_encode (utf8_decode buf))" by simp
    from as_text [OF s u] show "readFile mem path options w' = Inr (Text (utf8_decode buf))"
      by (simp add: utf8_lossy_encode_decode)
  next
    fix str assume o: "options = JUndefined" and d: "data = Text str"
    from stored d show s: "mem_readFile path w' = Inr (utf8_encode str)" by simp
    from o have "get_prop options ''encoding'' \<noteq> JStr ''utf8''" by simp
    from binary [OF s this]
    show "readFile mem path options w' = Inr (Binary (utf8_encode str))" .
  next
    fix buf assume o: "options = JUndefined" and d: "data = Binary buf"
    from stored d o show s: "mem_readFile path w' = Inr (utf8_encode (utf8_decode buf))" by simp
    from o have "get_prop options ''encoding'' \<noteq> JStr ''utf8''" by simp
    from binary [OF s this]
    show "readFile mem path options w' = Inr (Binary (utf8_encode (utf8_decode buf)))" .
  qed
qed


theorem write_then_read_mem_witness:
  "readFile mem ''f'' (JObj [])
      (empty_world\<lparr>nodes := (nodes empty_world)(''f'' := Some (File [1, 2, 0xFF]))\<rparr>)
     = Inr (Binary [1, 2, 0xFF])
   \<and> readFile mem ''f'' (JObj [])
      (empty_world\<lparr>nodes := (nodes empty_world)(''f'' := Some (File [0x68, 0xC3, 0xA9]))\<rparr>)
     = Inr (Binary [0x68, 0xC3, 0xA9])
   \<and> readFile mem ''f'' (JObj [(''encoding'', JStr ''utf8'')])
      (empty_world\<lparr>nodes := (nodes empty_world)(''f'' := Some (File [0x68, 0xC3, 0xA9]))\<rparr>)
     = Inr (Text [0x68, 0xE9])
   \<and> readFile mem ''f'' JUndefined
      (empty_world\<lparr>nodes := (nodes empty_world)(''f'' := Some (File [0x68, 0xC3, 0xA9]))\<rparr>)
     = Inr (Binary [0x68, 0xC3, 0xA9])"
proof -
  let ?w = "\<lambda>bytes. empty_world\<lparr>nodes := (nodes empty_world)(''f'' := Some (File bytes))\<rparr>"
  let ?utf8 = "JObj [(''encoding'', JStr ''utf8'')]"
  have enc: "utf8_encode [0x68, 0xE9] = [0x68, 0xC3, 0xA9]"
    by (simp add: utf8_encode_def utf8_bytes_def is_surrogate_def surrogate_pair_def)
  have dec: "utf8_decode [0x68, 0xC3, 0xA9] = [0x68, 0xE9]"
    by (simp add: utf8_decode_def utf16_units_def)
  have wf: "well_formed [0x68, 0xE9]"
    by (simp add: is_surrogate_def surrogate_pair_def)
  have w1: "writeFile mem ''f'' (Binary [1, 2, 0xFF]) (JObj []) empty_world = Inr (?w [1, 2, 0xFF])"
    by (simp add: writeFile_def member_def mem_def mem_writeFile_def walk_here empty_world_def)
  have w2: "writeFile mem ''f'' (Text [0x68, 0xE9]) (JObj []) empty_world
      = Inr (?w [0x68, 0xC3, 0xA9])"
    by (simp add: writeFile_def member_def mem_def mem_writeFile_def walk_here empty_world_def enc)
  have w3: "writeFile mem ''f'' (Text [0x68, 0xE9]) ?utf8 empty_world = Inr (?w [0x68, 0xC3, 0xA9])"
    by (simp add: writeFile_def member_def mem_def mem_writeFile_def walk_here empty_world_def enc)
  have w4: "writeFile mem ''f'' (Binary [0x68, 0xC3, 0xA9]) ?utf8 empty_world
      = Inr (?w [0x68, 0xC3, 0xA9])"
    by (simp add: writeFile_def member_def mem_def mem_writeFile_def walk_here empty_world_def
        enc dec)
  have w5: "writeFile mem ''f'' (Text [0x68, 0xE9]) JUndefined empty_world
      = Inr (?w [0x68, 0xC3, 0xA9])"
    by (simp add: writeFile_def member_def mem_def mem_writeFile_def walk_here empty_world_def enc)
  have w6: "writeFile mem ''f'' (Binary [0x68, 0xC3, 0xA9]) JUndefined empty_world
      = Inr (?w [0x68, 0xC3, 0xA9])"
    by (simp add: writeFile_def member_def mem_def mem_writeFile_def walk_here empty_world_def
        enc dec)
  from write_then_read_mem [OF w1]
  have r1: "readFile mem ''f'' (JObj []) (?w [1, 2, 0xFF]) = Inr (Binary [1, 2, 0xFF])"
    by simp
  from write_then_read_mem [OF w2]
  have r2: "readFile mem ''f'' (JObj []) (?w [0x68, 0xC3, 0xA9]) = Inr (Binary [0x68, 0xC3, 0xA9])"
    by (simp add: enc)
  from write_then_read_mem [OF w3, THEN conjunct2, THEN conjunct1] wf
  have r3: "readFile mem ''f'' ?utf8 (?w [0x68, 0xC3, 0xA9]) = Inr (Text [0x68, 0xE9])"
    by (simp add: is_surrogate_def surrogate_pair_def utf16_units_def)
  from write_then_read_mem [OF w4, THEN conjunct2, THEN conjunct1]
  have r4: "readFile mem ''f'' ?utf8 (?w [0x68, 0xC3, 0xA9]) = Inr (Text [0x68, 0xE9])"
    by (simp add: dec)
  from write_then_read_mem [OF w5, THEN conjunct2, THEN conjunct2]
  have r5: "readFile mem ''f'' JUndefined (?w [0x68, 0xC3, 0xA9]) = Inr (Binary [0x68, 0xC3, 0xA9])"
    by (simp add: enc)
  from write_then_read_mem [OF w6, THEN conjunct2, THEN conjunct2]
  have r6: "readFile mem ''f'' JUndefined (?w [0x68, 0xC3, 0xA9]) = Inr (Binary [0x68, 0xC3, 0xA9])"
    by (simp add: enc dec)
  from r1 r2 r3 r4 r5 r6 show ?thesis by simp
qed

text \<open>
  C7 as stated fails, with the same options given to the write and to the read. The one
  byte \<open>0xFF\<close>, written and read with no options, comes back as the three bytes of
  U+FFFD; written and read under \<open>"utf8"\<close> it comes back as the string U+FFFD. The string
  made of one lone surrogate, written and read under \<open>"utf8"\<close>, comes back as U+FFFD.
\<close>

theorem write_then_read_not_identical:
  "write_then_read mem ''f'' (Binary [0xFF]) JUndefined JUndefined empty_world
     = Inr (Binary [0xEF, 0xBF, 0xBD])
   \<and> Binary [0xEF, 0xBF, 0xBD] \<noteq> Binary [0xFF]
   \<and> write_then_read mem ''f'' (Binary [0xFF]) (JObj [(''encoding'', JStr ''utf8'')])
       (JObj [(''encoding'', JStr ''utf8'')]) empty_world = Inr (Text [0xFFFD])
   \<and> write_then_read mem ''f'' (Text [0xD800]) (JObj [(''encoding'', JStr ''utf8'')])
       (JObj [(''encoding'', JStr ''utf8'')]) empty_world = Inr (Text [0xFFFD])
   \<and> Text [0xFFFD] \<noteq> Text [0xD800]"
  by (simp add: write_then_read_def writeFile_def readFile_def member_def mem_def
      mem_writeFile_def mem_readFile_def walk_here empty_world_def utf8_decode_def utf8_lossy_def
      utf16_units_def utf8_encode_def utf8_bytes_def is_surrogate_def surrogate_pair_def)

end
